theory Spec2Isabelle
  imports Complex_Main "HOL-Library.AList"
begin

section \<open>The selenium-mcp server: session registry and command dispatcher\<close>

text \<open>
  A shallow embedding of \<^verbatim>\<open>server.py\<close>. The module keeps one global dictionary
  \<^verbatim>\<open>state = {"drivers": {}, "current_session": None}\<close>; every tool function reads
  or writes it and talks to the Selenium library. Here the dictionary is a record that the
  functions take and return, and Selenium (together with the clock, the file system and
  standard output) is an oracle: every call the module makes to it is appended to a trace,
  and the oracle answers from the trace so far and the call. A theorem that quantifies over
  the oracle therefore holds for every behaviour of the browser.
\<close>

subsection \<open>Values\<close>

text \<open>Handles of the library are opaque to the module: a driver and an element are names.\<close>

datatype driver = Driver nat

datatype element = Element nat

text \<open>\<^verbatim>\<open>webdriver.Chrome\<close> and \<^verbatim>\<open>webdriver.Firefox\<close>.\<close>

datatype browser_kind = Chrome | Firefox

text \<open>The members of Selenium's \<^verbatim>\<open>By\<close> class that \<^verbatim>\<open>get_locator\<close> uses.\<close>

datatype locator = ById | ByCssSelector | ByXPath | ByName | ByTagName | ByClassName

text \<open>
  \<^verbatim>\<open>EC.presence_of_element_located\<close> and \<^verbatim>\<open>EC.element_to_be_clickable\<close>.
\<close>

datatype condition = PresenceOfElementLocated | ElementToBeClickable

text \<open>
  Exceptions, each with the text that \<^verbatim>\<open>str(e)\<close> gives. \<open>EngineError\<close> is any
  exception raised inside the library (a Selenium exception, an \<^verbatim>\<open>OSError\<close> of
  \<^verbatim>\<open>open\<close>, ...). All of them are subclasses of Python's \<^verbatim>\<open>Exception\<close>, the
  class that every handler of the module catches; asynchronous signals such as
  \<^verbatim>\<open>KeyboardInterrupt\<close> are outside the model.
\<close>

datatype exn =
    Exception string
  | ValueError string
  | OverflowError string
  | ZeroDivisionError string
  | KeyError string
  | EngineError string

fun str_exn :: "exn \<Rightarrow> string" where
  "str_exn (Exception m) = m"
| "str_exn (ValueError m) = m"
| "str_exn (OverflowError m) = m"
| "str_exn (ZeroDivisionError m) = m"
| "str_exn (KeyError m) = m"
| "str_exn (EngineError m) = m"

text \<open>
  The calls that leave the module. \<open>Launch\<close> stands for building the options object
  (\<^verbatim>\<open>add_argument\<close> for each listed argument, in this order) and calling the
  constructor of the driver with it; \<open>WaitUntil\<close> for
  \<^verbatim>\<open>WebDriverWait(driver, seconds).until(condition((locator, value)))\<close>;
  \<open>MoveToElement\<close>, \<open>DragAndDrop\<close>, \<open>DoubleClick\<close>, \<open>ContextClick\<close> and
  \<open>KeyDownUp\<close> for an \<^verbatim>\<open>ActionChains(driver)\<close> with that one gesture, performed;
  \<open>WriteFile\<close> for opening the path for binary writing and writing the decoded
  screenshot; \<open>Print\<close> for \<^verbatim>\<open>print\<close>.
\<close>

datatype call =
    Launch browser_kind "string list"
  | TimeTime
  | DriverGet driver string
  | DriverQuit driver
  | WaitUntil driver rat condition locator string
  | ElementClick element
  | ElementClear element
  | ElementSendKeys element string
  | ElementText element
  | MoveToElement driver element
  | DragAndDrop driver element element
  | DoubleClick driver element
  | ContextClick driver element
  | KeyDownUp driver string
  | GetScreenshotAsBase64 driver
  | WriteFile string string
  | Print string

text \<open>
  The oracle. Each field answers one kind of call from the trace of the calls made before
  it. \<open>o_clock\<close> is the value of \<^verbatim>\<open>int(time.time() * 1000)\<close>; \<open>o_do\<close> answers the
  calls that return nothing: \<open>None\<close> when the call returns, \<open>Some e\<close> when it raises.
\<close>

record env =
  o_launch :: "call list \<Rightarrow> browser_kind \<Rightarrow> string list \<Rightarrow> exn + driver"
  o_clock :: "call list \<Rightarrow> int"
  o_wait :: "call list \<Rightarrow> driver \<Rightarrow> rat \<Rightarrow> condition \<Rightarrow> locator \<Rightarrow> string \<Rightarrow> exn + element"
  o_text :: "call list \<Rightarrow> element \<Rightarrow> exn + string"
  o_screenshot :: "call list \<Rightarrow> driver \<Rightarrow> exn + string"
  o_do :: "call list \<Rightarrow> call \<Rightarrow> exn option"

text \<open>
  The global \<^verbatim>\<open>state\<close>. A Python dictionary keeps its keys in insertion order, which
  \<^verbatim>\<open>cleanup\<close> iterates, so \<open>drivers\<close> is an association list: \<open>AList.update\<close> is
  \<^verbatim>\<open>d[k] = v\<close> (the value replaced in place when the key is there, the pair appended
  when it is not).
\<close>

record state =
  drivers :: "(string \<times> driver) list"
  current_session :: "string option"

definition initial_state :: state where
  "initial_state = \<lparr>drivers = [], current_session = None\<rparr>"

subsection \<open>Strings and numbers of Python\<close>

definition quote :: string where
  "quote = [CHR 0x27]"

text \<open>
  \<^verbatim>\<open>str.lower\<close>. A string is its UTF-8 bytes; only the letters A to Z change. (Python
  also lowers characters outside ASCII; the result then still has a character outside
  ASCII, with one exception, the Kelvin sign, which becomes \<open>k\<close>: no key of the locator
  table contains a \<open>k\<close>. So the strings whose lower-casing is a key are the same.)
\<close>

definition lower_char :: "char \<Rightarrow> char" where
  "lower_char c =
     (case map_of (zip ''ABCDEFGHIJKLMNOPQRSTUVWXYZ'' ''abcdefghijklmnopqrstuvwxyz'') c of
        None \<Rightarrow> c
      | Some l \<Rightarrow> l)"

definition lower :: "string \<Rightarrow> string" where
  "lower s = map lower_char s"

text \<open>\<^verbatim>\<open>str\<close> of an integer, as an f-string formats it.\<close>

definition digit_char :: "nat \<Rightarrow> char" where
  "digit_char d = ''0123456789'' ! d"

function str_digits :: "int \<Rightarrow> string" where
  "str_digits n =
     (if n < 10 then [digit_char (nat n)]
      else str_digits (n div 10) @ [digit_char (nat (n mod 10))])"
  by pat_completeness auto
termination
  by (relation "measure nat") simp_all

declare str_digits.simps [simp del]

definition str_int :: "int \<Rightarrow> string" where
  "str_int n = (if n < 0 then ''-'' @ str_digits (- n) else str_digits n)"

text \<open>
  \<^verbatim>\<open>a / b\<close> on two integers. Python returns the double nearest to the quotient and
  raises \<^verbatim>\<open>OverflowError\<close> when that double would not be finite, that is when the
  quotient is at least \<open>2^1024 - 2^970\<close> in absolute value. The model returns the quotient
  itself, as a rational: the rounding to 53 bits is left out.
\<close>

definition py_truediv :: "int \<Rightarrow> int \<Rightarrow> exn + rat" where
  "py_truediv a b =
     (if b = 0 then Inl (ZeroDivisionError ''division by zero'')
      else if 2 ^ 1024 - 2 ^ 970 \<le> \<bar>of_int a / of_int b :: rat\<bar>
      then Inl (OverflowError ''integer division result too large for a float'')
      else Inr (of_int a / of_int b))"

text \<open>\<^verbatim>\<open>del d[k]\<close> raises \<^verbatim>\<open>KeyError\<close> when the key is missing.\<close>

definition dict_del :: "string \<Rightarrow> (string \<times> 'v) list \<Rightarrow> exn + (string \<times> 'v) list" where
  "dict_del k d =
     (if k \<in> fst ` set d then Inr (AList.delete k d) else Inl (KeyError (quote @ k @ quote)))"

subsection \<open>Calls to the oracle\<close>

definition perform :: "env \<Rightarrow> call list \<Rightarrow> call \<Rightarrow> exn option \<times> call list" where
  "perform env tr c = (o_do env tr c, tr @ [c])"

definition launch :: "env \<Rightarrow> call list \<Rightarrow> browser_kind \<Rightarrow> string list \<Rightarrow> (exn + driver) \<times> call list" where
  "launch env tr kind args = (o_launch env tr kind args, tr @ [Launch kind args])"

definition time_ms :: "env \<Rightarrow> call list \<Rightarrow> int \<times> call list" where
  "time_ms env tr = (o_clock env tr, tr @ [TimeTime])"

definition element_text :: "env \<Rightarrow> call list \<Rightarrow> element \<Rightarrow> (exn + string) \<times> call list" where
  "element_text env tr el = (o_text env tr el, tr @ [ElementText el])"

definition get_screenshot_as_base64 :: "env \<Rightarrow> call list \<Rightarrow> driver \<Rightarrow> (exn + string) \<times> call list" where
  "get_screenshot_as_base64 env tr d = (o_screenshot env tr d, tr @ [GetScreenshotAsBase64 d])"

subsection \<open>The helpers of the module\<close>

text \<open>
  \<^verbatim>\<open>get_driver\<close>. \<^verbatim>\<open>None\<close> is never a key of the dictionary (the keys are the
  session identifiers), so the test fails for it.
\<close>

definition get_driver :: "state \<Rightarrow> exn + driver" where
  "get_driver s =
     (case current_session s of
        None \<Rightarrow> Inl (Exception ''No active browser session'')
      | Some sid \<Rightarrow>
          (case map_of (drivers s) sid of
             None \<Rightarrow> Inl (Exception ''No active browser session'')
           | Some d \<Rightarrow> Inr d))"

definition generate_session_id :: "env \<Rightarrow> call list \<Rightarrow> string \<Rightarrow> string \<times> call list" where
  "generate_session_id env tr browser =
     (case time_ms env tr of (ms, tr1) \<Rightarrow> (browser @ ''_'' @ str_int ms, tr1))"

definition locator_map :: "(string \<times> locator) list" where
  "locator_map =
     [(''id'', ById),
      (''css'', ByCssSelector),
      (''xpath'', ByXPath),
      (''name'', ByName),
      (''tag'', ByTagName),
      (''class'', ByClassName)]"

definition get_locator :: "string \<Rightarrow> exn + locator" where
  "get_locator by =
     (case map_of locator_map (lower by) of
        None \<Rightarrow> Inl (ValueError (''Unsupported locator strategy: '' @ by))
      | Some l \<Rightarrow> Inr l)"

text \<open>The default of every \<^verbatim>\<open>timeout: int = 10000\<close> parameter; \<open>None\<close> is the argument left out.\<close>

definition timeout_ms :: "int option \<Rightarrow> int" where
  "timeout_ms timeout = (case timeout of None \<Rightarrow> 10000 | Some t \<Rightarrow> t)"

text \<open>
  The expression \<^verbatim>\<open>WebDriverWait(driver, timeout_seconds).until(cond((get_locator(by), value)))\<close>
  that nine of the tools share. Python builds the \<^verbatim>\<open>WebDriverWait\<close> object first (the
  constructor stores its arguments and touches nothing), then evaluates the argument of
  \<^verbatim>\<open>until\<close>, where \<^verbatim>\<open>get_locator\<close> may raise, and only then waits.
\<close>

definition wait_until ::
  "env \<Rightarrow> call list \<Rightarrow> driver \<Rightarrow> rat \<Rightarrow> condition \<Rightarrow> string \<Rightarrow> string \<Rightarrow> (exn + element) \<times> call list" where
  "wait_until env tr d timeout_seconds cond by val =
     (case get_locator by of
        Inl e \<Rightarrow> (Inl e, tr)
      | Inr loc \<Rightarrow>
          (o_wait env tr d timeout_seconds cond loc val,
           tr @ [WaitUntil d timeout_seconds cond loc val]))"

text \<open>
  \<^verbatim>\<open>try: ... except Exception as e: return f"<prefix>{str(e)}"\<close>: the value of the
  block when it returns, the formatted message when it raises.
\<close>

definition except_return :: "string \<Rightarrow> exn + string \<Rightarrow> string" where
  "except_return prefix r = (case r of Inl e \<Rightarrow> prefix @ str_exn e | Inr msg \<Rightarrow> msg)"

subsection \<open>The tools\<close>

text \<open>
  Each tool is one \<^verbatim>\<open>try\<close> block and its handler. The block is the function with the
  suffix \<open>_try\<close>: it returns \<open>Inl e\<close> where the Python raises \<open>e\<close>, together with the
  trace (and the registry, for the two tools that write it) as they are at that moment.
\<close>

text \<open>
  \<^verbatim>\<open>start_browser\<close>. After the membership test the browser is \<^verbatim>\<open>"chrome"\<close> or
  \<^verbatim>\<open>"firefox"\<close>, so the \<^verbatim>\<open>elif\<close> is the \<open>else\<close> of the first test and
  \<^verbatim>\<open>driver\<close> never stays \<^verbatim>\<open>None\<close>. \<^verbatim>\<open>if arguments:\<close> skips \<^verbatim>\<open>None\<close> and
  the empty list alike.
\<close>

definition chrome_options :: "bool \<Rightarrow> string list option \<Rightarrow> string list" where
  "chrome_options headless arguments =
     (if headless then [''--headless=new''] else []) @
     (case arguments of None \<Rightarrow> [] | Some args \<Rightarrow> args)"

definition firefox_options :: "bool \<Rightarrow> string list option \<Rightarrow> string list" where
  "firefox_options headless arguments =
     (if headless then [''--headless''] else []) @
     (case arguments of None \<Rightarrow> [] | Some args \<Rightarrow> args)"

definition start_browser_try ::
  "env \<Rightarrow> string \<Rightarrow> bool \<Rightarrow> string list option \<Rightarrow> state \<Rightarrow> call list \<Rightarrow> (exn + string) \<times> state \<times> call list" where
  "start_browser_try env browser headless arguments s tr =
     (if browser \<notin> set [''chrome'', ''firefox'']
      then (Inl (ValueError ''Unsupported browser type. Use 'chrome' or 'firefox'.''), s, tr)
      else
        (case (if browser = ''chrome''
               then launch env tr Chrome (chrome_options headless arguments)
               else launch env tr Firefox (firefox_options headless arguments)) of
           (Inl e, tr1) \<Rightarrow> (Inl e, s, tr1)
         | (Inr d, tr1) \<Rightarrow>
             (case generate_session_id env tr1 browser of
                (session_id, tr2) \<Rightarrow>
                  (Inr (''Browser started with session_id: '' @ session_id),
                   s\<lparr>drivers := AList.update session_id d (drivers s),
                     current_session := Some session_id\<rparr>,
                   tr2))))"

definition start_browser ::
  "env \<Rightarrow> string \<Rightarrow> bool \<Rightarrow> string list option \<Rightarrow> state \<Rightarrow> call list \<Rightarrow> string \<times> state \<times> call list" where
  "start_browser env browser headless arguments s tr =
     (case start_browser_try env browser headless arguments s tr of
        (r, s1, tr1) \<Rightarrow> (except_return ''Error starting browser: '' r, s1, tr1))"

definition navigate_try :: "env \<Rightarrow> string \<Rightarrow> state \<Rightarrow> call list \<Rightarrow> (exn + string) \<times> call list" where
  "navigate_try env url s tr =
     (case get_driver s of
        Inl e \<Rightarrow> (Inl e, tr)
      | Inr d \<Rightarrow>
          (case perform env tr (DriverGet d url) of
             (Some e, tr1) \<Rightarrow> (Inl e, tr1)
           | (None, tr1) \<Rightarrow> (Inr (''Navigated to '' @ url), tr1)))"

definition navigate :: "env \<Rightarrow> string \<Rightarrow> state \<Rightarrow> call list \<Rightarrow> string \<times> call list" where
  "navigate env url s tr =
     (case navigate_try env url s tr of (r, tr1) \<Rightarrow> (except_return ''Error navigating: '' r, tr1))"

text \<open>
  \<^verbatim>\<open>close_session\<close>. The module defines it twice, with the same body; this is that body.
\<close>

definition close_session_try :: "env \<Rightarrow> state \<Rightarrow> call list \<Rightarrow> (exn + string) \<times> state \<times> call list" where
  "close_session_try env s tr =
     (case get_driver s of
        Inl e \<Rightarrow> (Inl e, s, tr)
      | Inr d \<Rightarrow>
          (case perform env tr (DriverQuit d) of
             (Some e, tr1) \<Rightarrow> (Inl e, s, tr1)
           | (None, tr1) \<Rightarrow>
               (case current_session s of
                  None \<Rightarrow> (Inl (KeyError ''None''), s, tr1)
                | Some session_id \<Rightarrow>
                    (case dict_del session_id (drivers s) of
                       Inl e \<Rightarrow> (Inl e, s, tr1)
                     | Inr ds \<Rightarrow>
                         (Inr (''Browser session '' @ session_id @ '' closed''),
                          s\<lparr>drivers := ds, current_session := None\<rparr>,
                          tr1)))))"

definition close_session :: "env \<Rightarrow> state \<Rightarrow> call list \<Rightarrow> string \<times> state \<times> call list" where
  "close_session env s tr =
     (case close_session_try env s tr of
        (r, s1, tr1) \<Rightarrow> (except_return ''Error closing session: '' r, s1, tr1))"

definition find_element_try ::
  "env \<Rightarrow> string \<Rightarrow> string \<Rightarrow> int option \<Rightarrow> state \<Rightarrow> call list \<Rightarrow> (exn + string) \<times> call list" where
  "find_element_try env by val timeout s tr =
     (case get_driver s of
        Inl e \<Rightarrow> (Inl e, tr)
      | Inr d \<Rightarrow>
          (case py_truediv (timeout_ms timeout) 1000 of
             Inl e \<Rightarrow> (Inl e, tr)
           | Inr timeout_seconds \<Rightarrow>
               (case wait_until env tr d timeout_seconds PresenceOfElementLocated by val of
                  (Inl e, tr1) \<Rightarrow> (Inl e, tr1)
                | (Inr el, tr1) \<Rightarrow>
                    (Inr (''Element found using '' @ by @ ''='' @ quote @ val @ quote), tr1))))"

definition find_element ::
  "env \<Rightarrow> string \<Rightarrow> string \<Rightarrow> int option \<Rightarrow> state \<Rightarrow> call list \<Rightarrow> string \<times> call list" where
  "find_element env by val timeout s tr =
     (case find_element_try env by val timeout s tr of
        (r, tr1) \<Rightarrow> (except_return ''Error finding element: '' r, tr1))"

definition click_element_try ::
  "env \<Rightarrow> string \<Rightarrow> string \<Rightarrow> int option \<Rightarrow> state \<Rightarrow> call list \<Rightarrow> (exn + string) \<times> call list" where
  "click_element_try env by val timeout s tr =
     (case get_driver s of
        Inl e \<Rightarrow> (Inl e, tr)
      | Inr d \<Rightarrow>
          (case py_truediv (timeout_ms timeout) 1000 of
             Inl e \<Rightarrow> (Inl e, tr)
           | Inr timeout_seconds \<Rightarrow>
               (case wait_until env tr d timeout_seconds ElementToBeClickable by val of
                  (Inl e, tr1) \<Rightarrow> (Inl e, tr1)
                | (Inr el, tr1) \<Rightarrow>
                    (case perform env tr1 (ElementClick el) of
                       (Some e, tr2) \<Rightarrow> (Inl e, tr2)
                     | (None, tr2) \<Rightarrow>
                         (Inr (''Element clicked using '' @ by @ ''='' @ quote @ val @ quote), tr2)))))"

definition click_element ::
  "env \<Rightarrow> string \<Rightarrow> string \<Rightarrow> int option \<Rightarrow> state \<Rightarrow> call list \<Rightarrow> string \<times> call list" where
  "click_element env by val timeout s tr =
     (case click_element_try env by val timeout s tr of
        (r, tr1) \<Rightarrow> (except_return ''Error clicking element: '' r, tr1))"

definition send_keys_try ::
  "env \<Rightarrow> string \<Rightarrow> string \<Rightarrow> string \<Rightarrow> int option \<Rightarrow> state \<Rightarrow> call list \<Rightarrow> (exn + string) \<times> call list" where
  "send_keys_try env by val text timeout s tr =
     (case get_driver s of
        Inl e \<Rightarrow> (Inl e, tr)
      | Inr d \<Rightarrow>
          (case py_truediv (timeout_ms timeout) 1000 of
             Inl e \<Rightarrow> (Inl e, tr)
           | Inr timeout_seconds \<Rightarrow>
               (case wait_until env tr d timeout_seconds PresenceOfElementLocated by val of
                  (Inl e, tr1) \<Rightarrow> (Inl e, tr1)
                | (Inr el, tr1) \<Rightarrow>
                    (case perform env tr1 (ElementClear el) of
                       (Some e, tr2) \<Rightarrow> (Inl e, tr2)
                     | (None, tr2) \<Rightarrow>
                         (case perform env tr2 (ElementSendKeys el text) of
                            (Some e, tr3) \<Rightarrow> (Inl e, tr3)
                          | (None, tr3) \<Rightarrow>
                              (Inr (''Text '' @ quote @ text @ quote @ '' entered into element using ''
                                    @ by @ ''='' @ quote @ val @ quote), tr3))))))"

definition send_keys ::
  "env \<Rightarrow> string \<Rightarrow> string \<Rightarrow> string \<Rightarrow> int option \<Rightarrow> state \<Rightarrow> call list \<Rightarrow> string \<times> call list" where
  "send_keys env by val text timeout s tr =
     (case send_keys_try env by val text timeout s tr of
        (r, tr1) \<Rightarrow> (except_return ''Error entering text: '' r, tr1))"

definition get_element_text_try ::
  "env \<Rightarrow> string \<Rightarrow> string \<Rightarrow> int option \<Rightarrow> state \<Rightarrow> call list \<Rightarrow> (exn + string) \<times> call list" where
  "get_element_text_try env by val timeout s tr =
     (case get_driver s of
        Inl e \<Rightarrow> (Inl e, tr)
      | Inr d \<Rightarrow>
          (case py_truediv (timeout_ms timeout) 1000 of
             Inl e \<Rightarrow> (Inl e, tr)
           | Inr timeout_seconds \<Rightarrow>
               (case wait_until env tr d timeout_seconds PresenceOfElementLocated by val of
                  (Inl e, tr1) \<Rightarrow> (Inl e, tr1)
                | (Inr el, tr1) \<Rightarrow>
                    (case element_text env tr1 el of
                       (Inl e, tr2) \<Rightarrow> (Inl e, tr2)
                     | (Inr text, tr2) \<Rightarrow>
                         (Inr (''Text of element using '' @ by @ ''='' @ quote @ val @ quote
                               @ '': '' @ text), tr2)))))"

definition get_element_text ::
  "env \<Rightarrow> string \<Rightarrow> string \<Rightarrow> int option \<Rightarrow> state \<Rightarrow> call list \<Rightarrow> string \<times> call list" where
  "get_element_text env by val timeout s tr =
     (case get_element_text_try env by val timeout s tr of
        (r, tr1) \<Rightarrow> (except_return ''Error getting element text: '' r, tr1))"

definition hover_try ::
  "env \<Rightarrow> string \<Rightarrow> string \<Rightarrow> int option \<Rightarrow> state \<Rightarrow> call list \<Rightarrow> (exn + string) \<times> call list" where
  "hover_try env by val timeout s tr =
     (case get_driver s of
        Inl e \<Rightarrow> (Inl e, tr)
      | Inr d \<Rightarrow>
          (case py_truediv (timeout_ms timeout) 1000 of
             Inl e \<Rightarrow> (Inl e, tr)
           | Inr timeout_seconds \<Rightarrow>
               (case wait_until env tr d timeout_seconds PresenceOfElementLocated by val of
                  (Inl e, tr1) \<Rightarrow> (Inl e, tr1)
                | (Inr el, tr1) \<Rightarrow>
                    (case perform env tr1 (MoveToElement d el) of
                       (Some e, tr2) \<Rightarrow> (Inl e, tr2)
                     | (None, tr2) \<Rightarrow>
                         (Inr (''Hovered over element using '' @ by @ ''='' @ quote @ val @ quote), tr2)))))"

definition hover ::
  "env \<Rightarrow> string \<Rightarrow> string \<Rightarrow> int option \<Rightarrow> state \<Rightarrow> call list \<Rightarrow> string \<times> call list" where
  "hover env by val timeout s tr =
     (case hover_try env by val timeout s tr of
        (r, tr1) \<Rightarrow> (except_return ''Error hovering over element: '' r, tr1))"

text \<open>
  \<^verbatim>\<open>drag_and_drop\<close>: two waits, one after the other, with the same
  \<^verbatim>\<open>timeout_seconds\<close>; the locator of the target is resolved after the wait for the
  source has returned.
\<close>

definition drag_and_drop_try ::
  "env \<Rightarrow> string \<Rightarrow> string \<Rightarrow> string \<Rightarrow> string \<Rightarrow> int option \<Rightarrow> state \<Rightarrow> call list
   \<Rightarrow> (exn + string) \<times> call list" where
  "drag_and_drop_try env by val target_by target_value timeout s tr =
     (case get_driver s of
        Inl e \<Rightarrow> (Inl e, tr)
      | Inr d \<Rightarrow>
          (case py_truediv (timeout_ms timeout) 1000 of
             Inl e \<Rightarrow> (Inl e, tr)
           | Inr timeout_seconds \<Rightarrow>
               (case wait_until env tr d timeout_seconds PresenceOfElementLocated by val of
                  (Inl e, tr1) \<Rightarrow> (Inl e, tr1)
                | (Inr source_element, tr1) \<Rightarrow>
                    (case wait_until env tr1 d timeout_seconds PresenceOfElementLocated
                            target_by target_value of
                       (Inl e, tr2) \<Rightarrow> (Inl e, tr2)
                     | (Inr target_element, tr2) \<Rightarrow>
                         (case perform env tr2 (DragAndDrop d source_element target_element) of
                            (Some e, tr3) \<Rightarrow> (Inl e, tr3)
                          | (None, tr3) \<Rightarrow>
                              (Inr (''Drag and drop completed from '' @ by @ ''='' @ quote @ val
                                    @ quote @ '' to '' @ target_by @ ''='' @ quote
                                    @ target_value @ quote), tr3))))))"

definition drag_and_drop ::
  "env \<Rightarrow> string \<Rightarrow> string \<Rightarrow> string \<Rightarrow> string \<Rightarrow> int option \<Rightarrow> state \<Rightarrow> call list
   \<Rightarrow> string \<times> call list" where
  "drag_and_drop env by val target_by target_value timeout s tr =
     (case drag_and_drop_try env by val target_by target_value timeout s tr of
        (r, tr1) \<Rightarrow> (except_return ''Error performing drag and drop: '' r, tr1))"

definition double_click_try ::
  "env \<Rightarrow> string \<Rightarrow> string \<Rightarrow> int option \<Rightarrow> state \<Rightarrow> call list \<Rightarrow> (exn + string) \<times> call list" where
  "double_click_try env by val timeout s tr =
     (case get_driver s of
        Inl e \<Rightarrow> (Inl e, tr)
      | Inr d \<Rightarrow>
          (case py_truediv (timeout_ms timeout) 1000 of
             Inl e \<Rightarrow> (Inl e, tr)
           | Inr timeout_seconds \<Rightarrow>
               (case wait_until env tr d timeout_seconds PresenceOfElementLocated by val of
                  (Inl e, tr1) \<Rightarrow> (Inl e, tr1)
                | (Inr el, tr1) \<Rightarrow>
                    (case perform env tr1 (DoubleClick d el) of
                       (Some e, tr2) \<Rightarrow> (Inl e, tr2)
                     | (None, tr2) \<Rightarrow>
                         (Inr (''Double click performed on element using '' @ by @ ''='' @ quote @ val @ quote), tr2)))))"

definition double_click ::
  "env \<Rightarrow> string \<Rightarrow> string \<Rightarrow> int option \<Rightarrow> state \<Rightarrow> call list \<Rightarrow> string \<times> call list" where
  "double_click env by val timeout s tr =
     (case double_click_try env by val timeout s tr of
        (r, tr1) \<Rightarrow> (except_return ''Error performing double click: '' r, tr1))"

definition right_click_try ::
  "env \<Rightarrow> string \<Rightarrow> string \<Rightarrow> int option \<Rightarrow> state \<Rightarrow> call list \<Rightarrow> (exn + string) \<times> call list" where
  "right_click_try env by val timeout s tr =
     (case get_driver s of
        Inl e \<Rightarrow> (Inl e, tr)
      | Inr d \<Rightarrow>
          (case py_truediv (timeout_ms timeout) 1000 of
             Inl e \<Rightarrow> (Inl e, tr)
           | Inr timeout_seconds \<Rightarrow>
               (case wait_until env tr d timeout_seconds PresenceOfElementLocated by val of
                  (Inl e, tr1) \<Rightarrow> (Inl e, tr1)
                | (Inr el, tr1) \<Rightarrow>
                    (case perform env tr1 (ContextClick d el) of
                       (Some e, tr2) \<Rightarrow> (Inl e, tr2)
                     | (None, tr2) \<Rightarrow>
                         (Inr (''Right click performed on element using '' @ by @ ''='' @ quote @ val @ quote), tr2)))))"

definition right_click ::
  "env \<Rightarrow> string \<Rightarrow> string \<Rightarrow> int option \<Rightarrow> state \<Rightarrow> call list \<Rightarrow> string \<times> call list" where
  "right_click env by val timeout s tr =
     (case right_click_try env by val timeout s tr of
        (r, tr1) \<Rightarrow> (except_return ''Error performing right click: '' r, tr1))"

definition press_key_try :: "env \<Rightarrow> string \<Rightarrow> state \<Rightarrow> call list \<Rightarrow> (exn + string) \<times> call list" where
  "press_key_try env key s tr =
     (case get_driver s of
        Inl e \<Rightarrow> (Inl e, tr)
      | Inr d \<Rightarrow>
          (case perform env tr (KeyDownUp d key) of
             (Some e, tr1) \<Rightarrow> (Inl e, tr1)
           | (None, tr1) \<Rightarrow> (Inr (''Key '' @ quote @ key @ quote @ '' pressed''), tr1)))"

definition press_key :: "env \<Rightarrow> string \<Rightarrow> state \<Rightarrow> call list \<Rightarrow> string \<times> call list" where
  "press_key env key s tr =
     (case press_key_try env key s tr of
        (r, tr1) \<Rightarrow> (except_return ''Error pressing key: '' r, tr1))"

definition upload_file_try ::
  "env \<Rightarrow> string \<Rightarrow> string \<Rightarrow> string \<Rightarrow> int option \<Rightarrow> state \<Rightarrow> call list \<Rightarrow> (exn + string) \<times> call list" where
  "upload_file_try env by val file_path timeout s tr =
     (case get_driver s of
        Inl e \<Rightarrow> (Inl e, tr)
      | Inr d \<Rightarrow>
          (case py_truediv (timeout_ms timeout) 1000 of
             Inl e \<Rightarrow> (Inl e, tr)
           | Inr timeout_seconds \<Rightarrow>
               (case wait_until env tr d timeout_seconds PresenceOfElementLocated by val of
                  (Inl e, tr1) \<Rightarrow> (Inl e, tr1)
                | (Inr el, tr1) \<Rightarrow>
                    (case perform env tr1 (ElementSendKeys el file_path) of
                       (Some e, tr2) \<Rightarrow> (Inl e, tr2)
                     | (None, tr2) \<Rightarrow>
                         (Inr (''File upload initiated using '' @ by @ ''='' @ quote @ val @ quote),
                          tr2)))))"

definition upload_file ::
  "env \<Rightarrow> string \<Rightarrow> string \<Rightarrow> string \<Rightarrow> int option \<Rightarrow> state \<Rightarrow> call list \<Rightarrow> string \<times> call list" where
  "upload_file env by val file_path timeout s tr =
     (case upload_file_try env by val file_path timeout s tr of
        (r, tr1) \<Rightarrow> (except_return ''Error uploading file: '' r, tr1))"

text \<open>
  \<^verbatim>\<open>take_screenshot\<close>. \<^verbatim>\<open>if output_path:\<close> is false for \<^verbatim>\<open>None\<close> and for the
  empty string.
\<close>

definition truthy :: "string option \<Rightarrow> string option" where
  "truthy p = (case p of None \<Rightarrow> None | Some path \<Rightarrow> if path = [] then None else Some path)"

definition take_screenshot_try ::
  "env \<Rightarrow> string option \<Rightarrow> state \<Rightarrow> call list \<Rightarrow> (exn + string) \<times> call list" where
  "take_screenshot_try env output_path s tr =
     (case get_driver s of
        Inl e \<Rightarrow> (Inl e, tr)
      | Inr d \<Rightarrow>
          (case get_screenshot_as_base64 env tr d of
             (Inl e, tr1) \<Rightarrow> (Inl e, tr1)
           | (Inr screenshot, tr1) \<Rightarrow>
               (case truthy output_path of
                  Some path \<Rightarrow>
                    (case perform env tr1 (WriteFile path screenshot) of
                       (Some e, tr2) \<Rightarrow> (Inl e, tr2)
                     | (None, tr2) \<Rightarrow> (Inr (''Screenshot saved to '' @ path), tr2))
                | None \<Rightarrow> (Inr (''Screenshot captured as base64: '' @ screenshot), tr1))))"

definition take_screenshot ::
  "env \<Rightarrow> string option \<Rightarrow> state \<Rightarrow> call list \<Rightarrow> string \<times> call list" where
  "take_screenshot env output_path s tr =
     (case take_screenshot_try env output_path s tr of
        (r, tr1) \<Rightarrow> (except_return ''Error taking screenshot: '' r, tr1))"

subsection \<open>The cleanup sweep\<close>



subsection \<open>Commands and runs\<close>

text \<open>
  The fourteen tools as one command type, the arguments in the order of the Python
  signatures; a run executes a list of commands on the registry and the trace.
\<close>

datatype command =
    StartBrowser string bool "string list option"
  | Navigate string
  | FindElement string string "int option"
  | ClickElement string string "int option"
  | SendKeys string string string "int option"
  | GetElementText string string "int option"
  | Hover string string "int option"
  | DragAndDropElement string string string string "int option"
  | DoubleClickElement string string "int option"
  | RightClick string string "int option"
  | PressKey string
  | UploadFile string string string "int option"
  | TakeScreenshot "string option"
  | CloseSession

definition keep :: "state \<Rightarrow> 'a \<times> call list \<Rightarrow> 'a \<times> state \<times> call list" where
  "keep s r = (fst r, s, snd r)"

text \<open>The \<^verbatim>\<open>try\<close> block of a command.\<close>

fun dispatch_try :: "env \<Rightarrow> command \<Rightarrow> state \<Rightarrow> call list \<Rightarrow> (exn + string) \<times> state \<times> call list" where
  "dispatch_try env (StartBrowser browser headless arguments) s tr =
     start_browser_try env browser headless arguments s tr"
| "dispatch_try env (Navigate url) s tr = keep s (navigate_try env url s tr)"
| "dispatch_try env (FindElement by val t) s tr = keep s (find_element_try env by val t s tr)"
| "dispatch_try env (ClickElement by val t) s tr = keep s (click_element_try env by val t s tr)"
| "dispatch_try env (SendKeys by val text t) s tr = keep s (send_keys_try env by val text t s tr)"
| "dispatch_try env (GetElementText by val t) s tr =
     keep s (get_element_text_try env by val t s tr)"
| "dispatch_try env (Hover by val t) s tr = keep s (hover_try env by val t s tr)"
| "dispatch_try env (DragAndDropElement by val tby tval t) s tr =
     keep s (drag_and_drop_try env by val tby tval t s tr)"
| "dispatch_try env (DoubleClickElement by val t) s tr = keep s (double_click_try env by val t s tr)"
| "dispatch_try env (RightClick by val t) s tr = keep s (right_click_try env by val t s tr)"
| "dispatch_try env (PressKey key) s tr = keep s (press_key_try env key s tr)"
| "dispatch_try env (UploadFile by val path t) s tr =
     keep s (upload_file_try env by val path t s tr)"
| "dispatch_try env (TakeScreenshot output_path) s tr =
     keep s (take_screenshot_try env output_path s tr)"
| "dispatch_try env CloseSession s tr = close_session_try env s tr"

text \<open>The tool itself.\<close>

fun dispatch :: "env \<Rightarrow> command \<Rightarrow> state \<Rightarrow> call list \<Rightarrow> string \<times> state \<times> call list" where
  "dispatch env (StartBrowser browser headless arguments) s tr =
     start_browser env browser headless arguments s tr"
| "dispatch env (Navigate url) s tr = keep s (navigate env url s tr)"
| "dispatch env (FindElement by val t) s tr = keep s (find_element env by val t s tr)"
| "dispatch env (ClickElement by val t) s tr = keep s (click_element env by val t s tr)"
| "dispatch env (SendKeys by val text t) s tr = keep s (send_keys env by val text t s tr)"
| "dispatch env (GetElementText by val t) s tr = keep s (get_element_text env by val t s tr)"
| "dispatch env (Hover by val t) s tr = keep s (hover env by val t s tr)"
| "dispatch env (DragAndDropElement by val tby tval t) s tr =
     keep s (drag_and_drop env by val tby tval t s tr)"
| "dispatch env (DoubleClickElement by val t) s tr = keep s (double_click env by val t s tr)"
| "dispatch env (RightClick by val t) s tr = keep s (right_click env by val t s tr)"
| "dispatch env (PressKey key) s tr = keep s (press_key env key s tr)"
| "dispatch env (UploadFile by val path t) s tr = keep s (upload_file env by val path t s tr)"
| "dispatch env (TakeScreenshot output_path) s tr = keep s (take_screenshot env output_path s tr)"
| "dispatch env CloseSession s tr = close_session env s tr"

fun run :: "env \<Rightarrow> command list \<Rightarrow> state \<Rightarrow> call list \<Rightarrow> state \<times> call list" where
  "run env [] s tr = (s, tr)"
| "run env (c # cs) s tr = (case dispatch env c s tr of (msg, s1, tr1) \<Rightarrow> run env cs s1 tr1)"

text \<open>A result is a failure when it starts with the marker that every handler prints.\<close>

definition is_error :: "string \<Rightarrow> bool" where
  "is_error msg = (take 5 msg = ''Error'')"

subsection \<open>Sample engines\<close>

text \<open>
  Four oracles for the concrete runs below. In \<open>ok_env\<close> every call succeeds; a launched
  driver and a found element are named after the length of the trace, and the clock shows
  1000 plus that length. In \<open>quit_fails_env\<close> the driver launched first cannot be quit.
  In \<open>print_fails_env\<close>, moreover, standard output is closed. In \<open>same_ms_env\<close> the
  clock stands still.
\<close>

definition ok_env :: env where
  "ok_env =
     \<lparr>o_launch = (\<lambda>tr kind args. Inr (Driver (length tr))),
      o_clock = (\<lambda>tr. 1000 + int (length tr)),
      o_wait = (\<lambda>tr d q cond loc v. Inr (Element (length tr))),
      o_text = (\<lambda>tr el. Inr ''hello''),
      o_screenshot = (\<lambda>tr d. Inr ''aGVsbG8=''),
      o_do = (\<lambda>tr c. None)\<rparr>"

definition quit_fails_env :: env where
  "quit_fails_env =
     ok_env\<lparr>o_do :=
       (\<lambda>tr c. case c of
                  DriverQuit d \<Rightarrow> if d = Driver 0 then Some (EngineError ''quit failed'') else None
                | _ \<Rightarrow> None)\<rparr>"


definition same_ms_env :: env where
  "same_ms_env = ok_env\<lparr>o_clock := (\<lambda>tr. 5)\<rparr>"

text \<open>A registry with one session, as \<^verbatim>\<open>start_browser\<close> leaves it.\<close>

definition one_session :: state where
  "one_session = \<lparr>drivers = [(''chrome_1001'', Driver 0)], current_session = Some ''chrome_1001''\<rparr>"

subsection \<open>Notions used in the statements\<close>

text \<open>The invariant of the registry: the pointer, when set, is a key of the mapping.\<close>

definition registry_ok :: "state \<Rightarrow> bool" where
  "registry_ok s =
     (case current_session s of None \<Rightarrow> True | Some sid \<Rightarrow> sid \<in> fst ` set (drivers s))"

text \<open>The timeouts, in seconds, of the waits in a trace.\<close>

fun wait_seconds :: "call list \<Rightarrow> rat list" where
  "wait_seconds [] = []"
| "wait_seconds (WaitUntil d q cond loc v # cs) = q # wait_seconds cs"
| "wait_seconds (c # cs) = wait_seconds cs"



text \<open>
  The tools that wait for an element: the strategy and the value of the (first) locator
  and the timeout argument.
\<close>

fun timed :: "command \<Rightarrow> (string \<times> string \<times> int option) option" where
  "timed (FindElement by val t) = Some (by, val, t)"
| "timed (ClickElement by val t) = Some (by, val, t)"
| "timed (SendKeys by val text t) = Some (by, val, t)"
| "timed (GetElementText by val t) = Some (by, val, t)"
| "timed (Hover by val t) = Some (by, val, t)"
| "timed (DragAndDropElement by val tby tval t) = Some (by, val, t)"
| "timed (DoubleClickElement by val t) = Some (by, val, t)"
| "timed (RightClick by val t) = Some (by, val, t)"
| "timed (UploadFile by val path t) = Some (by, val, t)"
| "timed c = None"


text \<open>A registry with two sessions, the second one current.\<close>

definition two_sessions :: state where
  "two_sessions =
     \<lparr>drivers = [(''chrome_1001'', Driver 0), (''firefox_1003'', Driver 2)],
      current_session = Some ''firefox_1003''\<rparr>"

section \<open>Properties\<close>

subsection \<open>Auxiliary facts\<close>

lemma get_driver_None:
  "current_session s = None \<Longrightarrow> get_driver s = Inl (Exception ''No active browser session'')"
  by (simp add: get_driver_def)

lemma get_driver_Inr:
  "get_driver s = Inr d \<longleftrightarrow>
     (\<exists>sid. current_session s = Some sid \<and> map_of (drivers s) sid = Some d)"
  by (auto simp: get_driver_def split: option.splits)

lemma map_of_Some_key: "map_of al k = Some v \<Longrightarrow> k \<in> fst ` set al"
  by (meson domI domIff map_of_eq_None_iff)

lemma except_wrap:
  "(case x of (r, tr1) \<Rightarrow> (except_return p r, tr1)) = (except_return p (fst x), snd x)"
  by (simp split: prod.splits)

lemma except_wrap3:
  "(case x of (r, s1, tr1) \<Rightarrow> (except_return p r, s1, tr1)) = (except_return p (fst x), snd x)"
  by (simp split: prod.splits)

lemma start_browser_try_ok: "fst (start_browser_try env b h a s tr) = Inr m \<Longrightarrow> \<not> is_error m"
  by (auto simp: start_browser_try_def is_error_def split: sum.splits prod.splits if_splits)

lemma navigate_try_ok: "fst (navigate_try env url s tr) = Inr m \<Longrightarrow> \<not> is_error m"
  by (auto simp: navigate_try_def is_error_def split: sum.splits prod.splits option.splits)

lemma close_session_try_ok: "fst (close_session_try env s tr) = Inr m \<Longrightarrow> \<not> is_error m"
  by (auto simp: close_session_try_def is_error_def split: sum.splits prod.splits option.splits)

lemma find_element_try_ok: "fst (find_element_try env by v t s tr) = Inr m \<Longrightarrow> \<not> is_error m"
  by (auto simp: find_element_try_def is_error_def split: sum.splits prod.splits)

lemma click_element_try_ok: "fst (click_element_try env by v t s tr) = Inr m \<Longrightarrow> \<not> is_error m"
  by (auto simp: click_element_try_def is_error_def split: sum.splits prod.splits option.splits)

lemma send_keys_try_ok: "fst (send_keys_try env by v text t s tr) = Inr m \<Longrightarrow> \<not> is_error m"
  by (auto simp: send_keys_try_def is_error_def split: sum.splits prod.splits option.splits)

lemma get_element_text_try_ok: "fst (get_element_text_try env by v t s tr) = Inr m \<Longrightarrow> \<not> is_error m"
  by (auto simp: get_element_text_try_def is_error_def split: sum.splits prod.splits)

lemma hover_try_ok: "fst (hover_try env by v t s tr) = Inr m \<Longrightarrow> \<not> is_error m"
  by (auto simp: hover_try_def is_error_def split: sum.splits prod.splits option.splits)

lemma drag_and_drop_try_ok: "fst (drag_and_drop_try env by v tby tv t s tr) = Inr m \<Longrightarrow> \<not> is_error m"
  by (auto simp: drag_and_drop_try_def is_error_def split: sum.splits prod.splits option.splits)

lemma double_click_try_ok: "fst (double_click_try env by v t s tr) = Inr m \<Longrightarrow> \<not> is_error m"
  by (auto simp: double_click_try_def is_error_def split: sum.splits prod.splits option.splits)

lemma right_click_try_ok: "fst (right_click_try env by v t s tr) = Inr m \<Longrightarrow> \<not> is_error m"
  by (auto simp: right_click_try_def is_error_def split: sum.splits prod.splits option.splits)

lemma press_key_try_ok: "fst (press_key_try env key s tr) = Inr m \<Longrightarrow> \<not> is_error m"
  by (auto simp: press_key_try_def is_error_def quote_def split: sum.splits prod.splits option.splits)

lemma upload_file_try_ok: "fst (upload_file_try env by v path t s tr) = Inr m \<Longrightarrow> \<not> is_error m"
  by (auto simp: upload_file_try_def is_error_def split: sum.splits prod.splits option.splits)

lemma take_screenshot_try_ok: "fst (take_screenshot_try env p s tr) = Inr m \<Longrightarrow> \<not> is_error m"
  by (auto simp: take_screenshot_try_def is_error_def split: sum.splits prod.splits option.splits)

lemmas try_ok = start_browser_try_ok navigate_try_ok close_session_try_ok find_element_try_ok
  click_element_try_ok send_keys_try_ok get_element_text_try_ok hover_try_ok drag_and_drop_try_ok
  double_click_try_ok right_click_try_ok press_key_try_ok upload_file_try_ok take_screenshot_try_ok

lemma dispatch_try_ok: "fst (dispatch_try env c s tr) = Inr m \<Longrightarrow> \<not> is_error m"
  by (cases c) (simp_all add: keep_def try_ok)

text \<open>The handler of each tool.\<close>

lemma dispatch_handler:
  "\<exists>p. is_error p \<and>
       dispatch env c s tr =
         (except_return p (fst (dispatch_try env c s tr)), snd (dispatch_try env c s tr))"
proof (cases c)
  case (StartBrowser b h a)
  show ?thesis unfolding StartBrowser dispatch.simps dispatch_try.simps start_browser_def except_wrap3
    by (rule exI [of _ "''Error starting browser: ''"]) (simp add: is_error_def)
next
  case (Navigate url)
  show ?thesis unfolding Navigate dispatch.simps dispatch_try.simps navigate_def except_wrap
    by (rule exI [of _ "''Error navigating: ''"]) (simp add: is_error_def keep_def)
next
  case (FindElement b v t)
  show ?thesis unfolding FindElement dispatch.simps dispatch_try.simps find_element_def except_wrap
    by (rule exI [of _ "''Error finding element: ''"]) (simp add: is_error_def keep_def)
next
  case (ClickElement b v t)
  show ?thesis unfolding ClickElement dispatch.simps dispatch_try.simps click_element_def except_wrap
    by (rule exI [of _ "''Error clicking element: ''"]) (simp add: is_error_def keep_def)
next
  case (SendKeys b v x t)
  show ?thesis unfolding SendKeys dispatch.simps dispatch_try.simps send_keys_def except_wrap
    by (rule exI [of _ "''Error entering text: ''"]) (simp add: is_error_def keep_def)
next
  case (GetElementText b v t)
  show ?thesis unfolding GetElementText dispatch.simps dispatch_try.simps get_element_text_def except_wrap
    by (rule exI [of _ "''Error getting element text: ''"]) (simp add: is_error_def keep_def)
next
  case (Hover b v t)
  show ?thesis unfolding Hover dispatch.simps dispatch_try.simps hover_def except_wrap
    by (rule exI [of _ "''Error hovering over element: ''"]) (simp add: is_error_def keep_def)
next
  case (DragAndDropElement b v tby tv t)
  show ?thesis unfolding DragAndDropElement dispatch.simps dispatch_try.simps drag_and_drop_def except_wrap
    by (rule exI [of _ "''Error performing drag and drop: ''"]) (simp add: is_error_def keep_def)
next
  case (DoubleClickElement b v t)
  show ?thesis unfolding DoubleClickElement dispatch.simps dispatch_try.simps double_click_def except_wrap
    by (rule exI [of _ "''Error performing double click: ''"]) (simp add: is_error_def keep_def)
next
  case (RightClick b v t)
  show ?thesis unfolding RightClick dispatch.simps dispatch_try.simps right_click_def except_wrap
    by (rule exI [of _ "''Error performing right click: ''"]) (simp add: is_error_def keep_def)
next
  case (PressKey key)
  show ?thesis unfolding PressKey dispatch.simps dispatch_try.simps press_key_def except_wrap
    by (rule exI [of _ "''Error pressing key: ''"]) (simp add: is_error_def keep_def)
next
  case (UploadFile b v path t)
  show ?thesis unfolding UploadFile dispatch.simps dispatch_try.simps upload_file_def except_wrap
    by (rule exI [of _ "''Error uploading file: ''"]) (simp add: is_error_def keep_def)
next
  case (TakeScreenshot p)
  show ?thesis unfolding TakeScreenshot dispatch.simps dispatch_try.simps take_screenshot_def except_wrap
    by (rule exI [of _ "''Error taking screenshot: ''"]) (simp add: is_error_def keep_def)
next
  case CloseSession
  show ?thesis unfolding CloseSession dispatch.simps dispatch_try.simps close_session_def except_wrap3
    by (rule exI [of _ "''Error closing session: ''"]) (simp add: is_error_def)
qed

lemma is_error_append: "is_error p \<Longrightarrow> is_error (p @ m)"
  by (auto simp: is_error_def dest: arg_cong [where f = length])

subsection \<open>The tools return text\<close>

text \<open>
  C1. Every tool returns a string for every oracle, every argument and every registry:
  the type of \<open>dispatch\<close> has no exception in it, and the handler of each tool covers the
  whole of its body. When the body raises \<open>e\<close>, the string starts with \<open>Error\<close> and ends
  with the text of \<open>e\<close>; when the body returns, the string is its value and does not
  start with \<open>Error\<close>. Registry and trace are those the body left.
\<close>

theorem dispatch_returns_text:
  "snd (dispatch env c s tr) = snd (dispatch_try env c s tr) \<and>
   (\<forall>e. fst (dispatch_try env c s tr) = Inl e \<longrightarrow>
      is_error (fst (dispatch env c s tr)) \<and>
      (\<exists>p. is_error p \<and> fst (dispatch env c s tr) = p @ str_exn e)) \<and>
   (\<forall>m. fst (dispatch_try env c s tr) = Inr m \<longrightarrow>
      fst (dispatch env c s tr) = m \<and> \<not> is_error m)"
proof -
  obtain p where p: "is_error p"
    and d: "dispatch env c s tr =
      (except_return p (fst (dispatch_try env c s tr)), snd (dispatch_try env c s tr))"
    using dispatch_handler by blast
  have 1: "snd (dispatch env c s tr) = snd (dispatch_try env c s tr)"
    by (simp add: d)
  have 2: "is_error (fst (dispatch env c s tr)) \<and>
      (\<exists>p. is_error p \<and> fst (dispatch env c s tr) = p @ str_exn e)"
    if "fst (dispatch_try env c s tr) = Inl e" for e
    using that p by (auto simp: d except_return_def is_error_append)
  have 3: "fst (dispatch env c s tr) = m \<and> \<not> is_error m"
    if "fst (dispatch_try env c s tr) = Inr m" for m
    using that dispatch_try_ok [OF that] by (simp add: d except_return_def)
  show ?thesis using 1 2 3 by blast
qed


theorem dispatch_returns_text_witness:
  "fst (dispatch_try ok_env CloseSession initial_state []) =
     Inl (Exception ''No active browser session'') \<and>
   fst (dispatch ok_env CloseSession initial_state []) =
     ''Error closing session: No active browser session'' \<and>
   is_error (fst (dispatch ok_env CloseSession initial_state [])) \<and>
   fst (dispatch_try ok_env (Navigate ''https://example.com'') one_session []) =
     Inr ''Navigated to https://example.com'' \<and>
   fst (dispatch ok_env (Navigate ''https://example.com'') one_session []) =
     ''Navigated to https://example.com''"
proof -
  have a: "fst (dispatch_try ok_env CloseSession initial_state []) =
      Inl (Exception ''No active browser session'')"
    by (simp add: close_session_try_def get_driver_def initial_state_def)
  have b: "fst (dispatch_try ok_env (Navigate ''https://example.com'') one_session []) =
      Inr ''Navigated to https://example.com''"
    by (simp add: keep_def navigate_try_def get_driver_def one_session_def perform_def ok_env_def)
  have c: "fst (dispatch ok_env CloseSession initial_state []) =
      ''Error closing session: No active browser session''"
    by (simp add: close_session_def close_session_try_def get_driver_def initial_state_def
        except_return_def)
  from dispatch_returns_text [of ok_env CloseSession initial_state "[]"] a
  have d: "is_error (fst (dispatch ok_env CloseSession initial_state []))"
    by blast
  from dispatch_returns_text [of ok_env "Navigate ''https://example.com''" one_session "[]"] b
  have e: "fst (dispatch ok_env (Navigate ''https://example.com'') one_session []) =
      ''Navigated to https://example.com''"
    by blast
  show ?thesis using a b c d e by blast
qed

subsection \<open>Unsupported browsers\<close>

text \<open>
  C3. For a browser name other than \<open>chrome\<close> and \<open>firefox\<close>, \<^verbatim>\<open>start_browser\<close>
  returns the failure message of the membership test; the trace is the one it was given
  (nothing was launched, the clock was not read) and so is the registry.
\<close>

theorem start_browser_unsupported:
  "browser \<notin> {''chrome'', ''firefox''} \<Longrightarrow>
   start_browser env browser headless arguments s tr =
     (''Error starting browser: Unsupported browser type. Use 'chrome' or 'firefox'.'', s, tr) \<and>
   is_error (fst (start_browser env browser headless arguments s tr))"
  by (simp add: start_browser_def start_browser_try_def except_return_def is_error_def)

theorem start_browser_unsupported_witness:
  "''safari'' \<notin> {''chrome'', ''firefox''} \<and>
   start_browser ok_env ''safari'' True (Some [''--no-sandbox'']) one_session [TimeTime] =
     (''Error starting browser: Unsupported browser type. Use 'chrome' or 'firefox'.'',
      one_session, [TimeTime])"
proof -
  have h: "''safari'' \<notin> {''chrome'', ''firefox''}" by simp
  show ?thesis
    using h start_browser_unsupported [OF h, of ok_env True "Some [''--no-sandbox'']" one_session "[TimeTime]"]
    by blast
qed

subsection \<open>Closing a session\<close>

lemma close_session_success:
  assumes "close_session env s tr = (m1, s1, tr1)" and "\<not> is_error m1"
  shows "current_session s1 = None"
  using assms
  by (auto simp: close_session_def close_session_try_def perform_def except_return_def
      is_error_def dict_del_def split: sum.splits prod.splits option.splits if_splits)

lemma start_browser_chrome_ok:
  "start_browser ok_env ''chrome'' False None initial_state [] =
     (''Browser started with session_id: chrome_1001'', one_session, [Launch Chrome [], TimeTime])"
  by (simp add: start_browser_def start_browser_try_def launch_def ok_env_def chrome_options_def
      generate_session_id_def time_ms_def str_int_def str_digits.simps digit_char_def
      except_return_def initial_state_def one_session_def)

lemma close_session_one_ok:
  "close_session ok_env one_session tr =
     (''Browser session chrome_1001 closed'', initial_state, tr @ [DriverQuit (Driver 0)])"
  by (simp add: close_session_def close_session_try_def get_driver_def one_session_def
      perform_def ok_env_def dict_del_def except_return_def initial_state_def)

text \<open>
  C6. From the empty registry, \<^verbatim>\<open>start_browser("chrome")\<close> whose launch returns a
  driver, followed by \<^verbatim>\<open>close_session()\<close> whose \<^verbatim>\<open>quit\<close> returns, ends in the empty
  registry with no current session; neither result is a failure.
\<close>

theorem start_then_close:
  assumes "o_launch env tr Chrome (chrome_options headless arguments) = Inr d"
    and "o_do env (tr @ [Launch Chrome (chrome_options headless arguments), TimeTime])
           (DriverQuit d) = None"
    and "start_browser env ''chrome'' headless arguments initial_state tr = (m1, s1, tr1)"
    and "close_session env s1 tr1 = (m2, s2, tr2)"
  shows "drivers s2 = [] \<and> current_session s2 = None \<and> \<not> is_error m1 \<and> \<not> is_error m2"
  using assms
  by (auto simp: start_browser_def start_browser_try_def launch_def generate_session_id_def
      time_ms_def except_return_def initial_state_def close_session_def close_session_try_def
      get_driver_def perform_def is_error_def dict_del_def)

theorem start_then_close_witness:
  "o_launch ok_env [] Chrome (chrome_options False None) = Inr (Driver 0) \<and>
   o_do ok_env ([] @ [Launch Chrome (chrome_options False None), TimeTime])
     (DriverQuit (Driver 0)) = None \<and>
   start_browser ok_env ''chrome'' False None initial_state [] =
     (''Browser started with session_id: chrome_1001'', one_session,
      [Launch Chrome [], TimeTime]) \<and>
   close_session ok_env one_session [Launch Chrome [], TimeTime] =
     (''Browser session chrome_1001 closed'', initial_state,
      [Launch Chrome [], TimeTime, DriverQuit (Driver 0)]) \<and>
   drivers initial_state = [] \<and> current_session initial_state = None"
proof -
  have a: "o_launch ok_env [] Chrome (chrome_options False None) = Inr (Driver 0)"
    by (simp add: ok_env_def)
  have b: "o_do ok_env ([] @ [Launch Chrome (chrome_options False None), TimeTime])
      (DriverQuit (Driver 0)) = None"
    by (simp add: ok_env_def)
  have c: "start_browser ok_env ''chrome'' False None initial_state [] =
      (''Browser started with session_id: chrome_1001'', one_session,
       [Launch Chrome [], TimeTime])"
    by (rule start_browser_chrome_ok)
  have d: "close_session ok_env one_session [Launch Chrome [], TimeTime] =
      (''Browser session chrome_1001 closed'', initial_state,
       [Launch Chrome [], TimeTime, DriverQuit (Driver 0)])"
    by (simp add: close_session_one_ok)
  from start_then_close [OF a b c d]
  have "drivers initial_state = [] \<and> current_session initial_state = None"
    by blast
  then show ?thesis using a b c d by blast
qed

text \<open>
  C7. After a \<^verbatim>\<open>close_session\<close> that succeeded, a second \<^verbatim>\<open>close_session\<close> fails
  with the message of \<^verbatim>\<open>get_driver\<close>, calls nothing and leaves the registry as the first
  call left it: without a current session, and empty if the first call emptied it.
\<close>

theorem close_session_twice:
  assumes "close_session env s tr = (m1, s1, tr1)" and "\<not> is_error m1"
  shows "close_session env s1 tr1 =
           (''Error closing session: No active browser session'', s1, tr1) \<and>
         is_error (fst (close_session env s1 tr1)) \<and>
         current_session s1 = None \<and>
         (drivers s1 = [] \<longrightarrow> s1 = initial_state)"
proof -
  have c: "current_session s1 = None"
    using close_session_success [OF assms] .
  have d: "close_session env s1 tr1 =
      (''Error closing session: No active browser session'', s1, tr1)"
    by (simp add: close_session_def close_session_try_def get_driver_None [OF c] except_return_def)
  show ?thesis using c d by (simp add: is_error_def initial_state_def)
qed

theorem close_session_twice_witness:
  "close_session ok_env one_session [] =
     (''Browser session chrome_1001 closed'', initial_state, [DriverQuit (Driver 0)]) \<and>
   \<not> is_error ''Browser session chrome_1001 closed'' \<and>
   drivers initial_state = [] \<and>
   close_session ok_env initial_state [DriverQuit (Driver 0)] =
     (''Error closing session: No active browser session'', initial_state,
      [DriverQuit (Driver 0)])"
proof -
  have a: "close_session ok_env one_session [] =
      (''Browser session chrome_1001 closed'', initial_state, [DriverQuit (Driver 0)])"
    using close_session_one_ok [of "[]"] by simp
  have b: "\<not> is_error ''Browser session chrome_1001 closed''"
    by (simp add: is_error_def)
  have c: "drivers initial_state = []"
    by (simp add: initial_state_def)
  show ?thesis using a b c close_session_twice [OF a b] by blast
qed

text \<open>
  C10. When \<^verbatim>\<open>quit\<close> of the current driver raises, \<^verbatim>\<open>close_session\<close> returns the
  failure message with the text of the exception and the registry is the one it was
  given: the entry is still there and is still the current session.
\<close>

theorem close_session_quit_raises:
  "get_driver s = Inr d \<Longrightarrow> o_do env tr (DriverQuit d) = Some e \<Longrightarrow>
   close_session env s tr = (''Error closing session: '' @ str_exn e, s, tr @ [DriverQuit d]) \<and>
   is_error (fst (close_session env s tr))"
  by (simp add: close_session_def close_session_try_def perform_def except_return_def is_error_def)

theorem close_session_quit_raises_witness:
  "get_driver one_session = Inr (Driver 0) \<and>
   o_do quit_fails_env [] (DriverQuit (Driver 0)) = Some (EngineError ''quit failed'') \<and>
   close_session quit_fails_env one_session [] =
     (''Error closing session: quit failed'', one_session, [DriverQuit (Driver 0)])"
proof -
  have a: "get_driver one_session = Inr (Driver 0)"
    by (simp add: get_driver_def one_session_def)
  have b: "o_do quit_fails_env [] (DriverQuit (Driver 0)) = Some (EngineError ''quit failed'')"
    by (simp add: quit_fails_env_def ok_env_def)
  show ?thesis using a b close_session_quit_raises [OF a b] by simp
qed

subsection \<open>The invariant of the registry\<close>

lemma fst_snd_keep: "fst (snd (keep s r)) = s"
  by (simp add: keep_def)

lemma start_browser_cases:
  "(is_error (fst (start_browser env b h a s tr)) \<and> fst (snd (start_browser env b h a s tr)) = s) \<or>
   (\<exists>d ms. \<not> is_error (fst (start_browser env b h a s tr)) \<and>
      fst (snd (start_browser env b h a s tr)) =
        s\<lparr>drivers := AList.update (b @ ''_'' @ str_int ms) d (drivers s),
          current_session := Some (b @ ''_'' @ str_int ms)\<rparr>)"
  by (cases "b = ''chrome''"; cases "b = ''firefox''";
      cases "o_launch env tr Chrome (chrome_options h a)";
      cases "o_launch env tr Firefox (firefox_options h a)")
     (simp_all add: start_browser_def start_browser_try_def launch_def generate_session_id_def
        time_ms_def except_return_def is_error_def, blast+)

lemma close_session_cases:
  "fst (snd (close_session env s tr)) = s \<or>
   (\<exists>sid. current_session s = Some sid \<and>
      fst (snd (close_session env s tr)) =
        s\<lparr>drivers := AList.delete sid (drivers s), current_session := None\<rparr>)"
  by (cases "get_driver s"; cases "current_session s"; cases "o_do env tr (DriverQuit (projr (get_driver s)))")
     (simp_all add: close_session_def close_session_try_def perform_def dict_del_def)

lemma start_browser_registry_ok:
  assumes "registry_ok s"
  shows "registry_ok (fst (snd (start_browser env b h a s tr)))"
proof -
  consider "fst (snd (start_browser env b h a s tr)) = s"
    | d ms where "fst (snd (start_browser env b h a s tr)) =
        s\<lparr>drivers := AList.update (b @ ''_'' @ str_int ms) d (drivers s),
          current_session := Some (b @ ''_'' @ str_int ms)\<rparr>"
    using start_browser_cases [of env b h a s tr] by blast
  then show ?thesis
  proof cases
    case 1
    show ?thesis unfolding 1 by (rule assms)
  next
    case 2
    show ?thesis unfolding 2 by (simp add: registry_ok_def dom_update)
  qed
qed

lemma close_session_registry_ok:
  assumes "registry_ok s"
  shows "registry_ok (fst (snd (close_session env s tr)))"
proof -
  consider "fst (snd (close_session env s tr)) = s"
    | sid where "fst (snd (close_session env s tr)) =
        s\<lparr>drivers := AList.delete sid (drivers s), current_session := None\<rparr>"
    using close_session_cases [of env s tr] by blast
  then show ?thesis
  proof cases
    case 1
    show ?thesis unfolding 1 by (rule assms)
  next
    case 2
    show ?thesis unfolding 2 by (simp add: registry_ok_def)
  qed
qed

lemma dispatch_registry_ok:
  "registry_ok s \<Longrightarrow> registry_ok (fst (snd (dispatch env c s tr)))"
  by (cases c) (simp_all add: fst_snd_keep start_browser_registry_ok close_session_registry_ok)

lemma run_registry_ok:
  "registry_ok s \<Longrightarrow> registry_ok (fst (run env cs s tr))"
proof (induction cs arbitrary: s tr)
  case Nil
  then show ?case by simp
next
  case (Cons c cs)
  obtain m s1 tr1 where d: "dispatch env c s tr = (m, s1, tr1)"
    by (cases "dispatch env c s tr") auto
  have "registry_ok s1"
    using dispatch_registry_ok [OF Cons.prems, of env c tr] by (simp add: d)
  then show ?case
    using Cons.IH [of s1 tr1] by (simp add: d)
qed

lemma registry_ok_get_driver:
  "registry_ok s \<Longrightarrow> current_session s \<noteq> None \<Longrightarrow> \<exists>d. get_driver s = Inr d"
  by (auto simp: registry_ok_def get_driver_def split: option.splits
      dest: weak_map_of_SomeI simp: map_of_eq_None_iff)

text \<open>
  C2. After any list of commands run from the empty registry, under any oracle, the
  pointer is a key of the mapping whenever it is set, and \<^verbatim>\<open>get_driver\<close> then
  returns a driver.
\<close>

theorem pointer_is_registered:
  "registry_ok (fst (run env cs initial_state tr)) \<and>
   (current_session (fst (run env cs initial_state tr)) \<noteq> None \<longrightarrow>
      (\<exists>d. get_driver (fst (run env cs initial_state tr)) = Inr d))"
proof -
  have "registry_ok initial_state"
    by (simp add: registry_ok_def initial_state_def)
  then have "registry_ok (fst (run env cs initial_state tr))"
    by (rule run_registry_ok)
  then show ?thesis
    using registry_ok_get_driver by blast
qed

theorem pointer_is_registered_witness:
  "run ok_env [StartBrowser ''chrome'' False None] initial_state [] =
     (one_session, [Launch Chrome [], TimeTime]) \<and>
   current_session one_session = Some ''chrome_1001'' \<and>
   registry_ok one_session \<and>
   get_driver one_session = Inr (Driver 0)"
proof -
  have r: "run ok_env [StartBrowser ''chrome'' False None] initial_state [] =
      (one_session, [Launch Chrome [], TimeTime])"
    by (simp add: start_browser_chrome_ok)
  have c: "current_session one_session = Some ''chrome_1001''"
    by (simp add: one_session_def)
  have g: "get_driver one_session = Inr (Driver 0)"
    by (simp add: get_driver_def one_session_def)
  from pointer_is_registered [of ok_env "[StartBrowser ''chrome'' False None]" "[]"]
  have "registry_ok (fst (run ok_env [StartBrowser ''chrome'' False None] initial_state []))"
    by blast
  then have "registry_ok one_session"
    unfolding r by simp
  then show ?thesis using r c g by blast
qed

subsection \<open>Session identifiers\<close>

lemma start_browser_distinct:
  assumes "distinct (map fst (drivers s))"
  shows "distinct (map fst (drivers (fst (snd (start_browser env b h a s tr)))))"
proof -
  consider "fst (snd (start_browser env b h a s tr)) = s"
    | d ms where "fst (snd (start_browser env b h a s tr)) =
        s\<lparr>drivers := AList.update (b @ ''_'' @ str_int ms) d (drivers s),
          current_session := Some (b @ ''_'' @ str_int ms)\<rparr>"
    using start_browser_cases [of env b h a s tr] by blast
  then show ?thesis
  proof cases
    case 1
    show ?thesis unfolding 1 by (rule assms)
  next
    case 2
    show ?thesis unfolding 2 using assms by (simp add: distinct_update)
  qed
qed

lemma close_session_distinct:
  assumes "distinct (map fst (drivers s))"
  shows "distinct (map fst (drivers (fst (snd (close_session env s tr)))))"
proof -
  consider "fst (snd (close_session env s tr)) = s"
    | sid where "fst (snd (close_session env s tr)) =
        s\<lparr>drivers := AList.delete sid (drivers s), current_session := None\<rparr>"
    using close_session_cases [of env s tr] by blast
  then show ?thesis
  proof cases
    case 1
    show ?thesis unfolding 1 by (rule assms)
  next
    case 2
    show ?thesis unfolding 2 using assms by (simp add: distinct_delete)
  qed
qed

lemma dispatch_distinct:
  "distinct (map fst (drivers s)) \<Longrightarrow> distinct (map fst (drivers (fst (snd (dispatch env c s tr)))))"
  by (cases c) (simp_all add: fst_snd_keep start_browser_distinct close_session_distinct)

lemma run_distinct:
  "distinct (map fst (drivers s)) \<Longrightarrow> distinct (map fst (drivers (fst (run env cs s tr))))"
proof (induction cs arbitrary: s tr)
  case Nil
  then show ?case by simp
next
  case (Cons c cs)
  obtain m s1 tr1 where d: "dispatch env c s tr = (m, s1, tr1)"
    by (cases "dispatch env c s tr") auto
  have "distinct (map fst (drivers s1))"
    using dispatch_distinct [OF Cons.prems, of env c tr] by (simp add: d)
  then show ?case
    using Cons.IH [of s1 tr1] by (simp add: d)
qed

lemma update_fresh: "k \<notin> fst ` set al \<Longrightarrow> AList.update k v al = al @ [(k, v)]"
  by (induction al) auto

lemma start_browser_launched:
  assumes "browser = ''chrome'' \<and> kind = Chrome \<and> opts = chrome_options h a \<or>
           browser = ''firefox'' \<and> kind = Firefox \<and> opts = firefox_options h a"
    and "o_launch env tr kind opts = Inr d"
    and "sid = browser @ ''_'' @ str_int (o_clock env (tr @ [Launch kind opts]))"
  shows "start_browser env browser h a s tr =
           (''Browser started with session_id: '' @ sid,
            s\<lparr>drivers := AList.update sid d (drivers s), current_session := Some sid\<rparr>,
            tr @ [Launch kind opts, TimeTime])"
  using assms
  by (auto simp: start_browser_def start_browser_try_def launch_def generate_session_id_def
      time_ms_def except_return_def)

lemma start_browser_firefox_ok:
  "start_browser ok_env ''firefox'' False None one_session [Launch Chrome [], TimeTime] =
     (''Browser started with session_id: firefox_1003'', two_sessions,
      [Launch Chrome [], TimeTime, Launch Firefox [], TimeTime])"
  by (simp add: start_browser_def start_browser_try_def launch_def ok_env_def firefox_options_def
      generate_session_id_def time_ms_def str_int_def str_digits.simps digit_char_def
      except_return_def two_sessions_def one_session_def)

text \<open>
  C9, as the code has it. The keys of the mapping are pairwise distinct in every
  reachable registry. A \<^verbatim>\<open>start_browser\<close> whose launch returns a driver reads the clock
  after the launch, generates the identifier from the browser name, an underscore and
  that reading in milliseconds, maps the identifier to the launched driver, leaves the
  entries of all other identifiers as they are and makes the identifier the current
  session. When the identifier is not yet a key, the new entry is appended to the
  entries that were there; when it is one, the driver of that entry is replaced and the
  keys stay as they are.
\<close>

theorem start_browser_registers:
  assumes "run env cs initial_state tr0 = (s, tr)"
    and "browser = ''chrome'' \<and> kind = Chrome \<and> opts = chrome_options h a \<or>
         browser = ''firefox'' \<and> kind = Firefox \<and> opts = firefox_options h a"
    and "o_launch env tr kind opts = Inr d"
    and "sid = browser @ ''_'' @ str_int (o_clock env (tr @ [Launch kind opts]))"
  shows "\<exists>s'. start_browser env browser h a s tr =
              (''Browser started with session_id: '' @ sid, s', tr @ [Launch kind opts, TimeTime]) \<and>
            current_session s' = Some sid \<and>
            map_of (drivers s') = (map_of (drivers s))(sid \<mapsto> d) \<and>
            distinct (map fst (drivers s)) \<and>
            distinct (map fst (drivers s')) \<and>
            (sid \<notin> fst ` set (drivers s) \<longrightarrow> drivers s' = drivers s @ [(sid, d)]) \<and>
            (sid \<in> fst ` set (drivers s) \<longrightarrow> map fst (drivers s') = map fst (drivers s))"
proof -
  let ?s' = "s\<lparr>drivers := AList.update sid d (drivers s), current_session := Some sid\<rparr>"
  have "distinct (map fst (drivers initial_state))"
    by (simp add: initial_state_def)
  then have "distinct (map fst (drivers (fst (run env cs initial_state tr0))))"
    by (rule run_distinct)
  then have 1: "distinct (map fst (drivers s))"
    by (simp add: assms(1))
  have 2: "start_browser env browser h a s tr =
      (''Browser started with session_id: '' @ sid, ?s', tr @ [Launch kind opts, TimeTime])"
    by (rule start_browser_launched [OF assms(2,3,4)])
  have 3: "current_session ?s' = Some sid"
    by simp
  have 4: "map_of (drivers ?s') = (map_of (drivers s))(sid \<mapsto> d)"
    by (simp add: update_conv')
  have 5: "distinct (map fst (drivers ?s'))"
    using 1 by (simp add: distinct_update)
  have 6: "sid \<notin> fst ` set (drivers s) \<longrightarrow> drivers ?s' = drivers s @ [(sid, d)]"
    by (simp add: update_fresh)
  have 7: "sid \<in> fst ` set (drivers s) \<longrightarrow> map fst (drivers ?s') = map fst (drivers s)"
    by (simp add: update_keys)
  show ?thesis
    using 1 2 3 4 5 6 7 by blast
qed

theorem start_browser_registers_witness:
  "run ok_env [StartBrowser ''chrome'' False None] initial_state [] =
     (one_session, [Launch Chrome [], TimeTime]) \<and>
   o_launch ok_env [Launch Chrome [], TimeTime] Firefox (firefox_options False None) =
     Inr (Driver 2) \<and>
   ''firefox_1003'' =
     ''firefox'' @ ''_'' @
     str_int (o_clock ok_env
       ([Launch Chrome [], TimeTime] @ [Launch Firefox (firefox_options False None)])) \<and>
   start_browser ok_env ''firefox'' False None one_session [Launch Chrome [], TimeTime] =
     (''Browser started with session_id: firefox_1003'', two_sessions,
      [Launch Chrome [], TimeTime, Launch Firefox [], TimeTime]) \<and>
   current_session two_sessions = Some ''firefox_1003'' \<and>
   drivers two_sessions = drivers one_session @ [(''firefox_1003'', Driver 2)] \<and>
   distinct (map fst (drivers two_sessions))"
proof -
  have r: "run ok_env [StartBrowser ''chrome'' False None] initial_state [] =
      (one_session, [Launch Chrome [], TimeTime])"
    by (simp add: start_browser_chrome_ok)
  have k: "''firefox'' = ''chrome'' \<and> Firefox = Chrome \<and>
        firefox_options False None = chrome_options False None \<or>
      ''firefox'' = ''firefox'' \<and> Firefox = Firefox \<and>
        firefox_options False None = firefox_options False None"
    by simp
  have l: "o_launch ok_env [Launch Chrome [], TimeTime] Firefox (firefox_options False None) =
      Inr (Driver 2)"
    by (simp add: ok_env_def)
  have i: "''firefox_1003'' =
      ''firefox'' @ ''_'' @
      str_int (o_clock ok_env
        ([Launch Chrome [], TimeTime] @ [Launch Firefox (firefox_options False None)]))"
    by (simp add: ok_env_def str_int_def str_digits.simps digit_char_def)
  have e: "drivers two_sessions = drivers one_session @ [(''firefox_1003'', Driver 2)]"
    by (simp add: two_sessions_def one_session_def)
  have c: "current_session two_sessions = Some ''firefox_1003''"
    by (simp add: two_sessions_def)
  from start_browser_registers [OF r k l i]
  obtain s' where
    "start_browser ok_env ''firefox'' False None one_session [Launch Chrome [], TimeTime] =
       (''Browser started with session_id: '' @ ''firefox_1003'', s',
        [Launch Chrome [], TimeTime] @ [Launch Firefox (firefox_options False None), TimeTime])"
    and "distinct (map fst (drivers s'))"
    by blast
  then have "distinct (map fst (drivers two_sessions))"
    by (simp add: start_browser_firefox_ok)
  then show ?thesis using r l i start_browser_firefox_ok c e by blast
qed

text \<open>
  C9, as the claim has it, fails: when the clock shows the same millisecond for two
  launches of the same browser, the second \<^verbatim>\<open>start_browser\<close> generates the
  identifier of the first and replaces its driver in the mapping.
\<close>

theorem same_millisecond_overwrites:
  "start_browser same_ms_env ''chrome'' False None initial_state [] =
     (''Browser started with session_id: chrome_5'',
      \<lparr>drivers = [(''chrome_5'', Driver 0)], current_session = Some ''chrome_5''\<rparr>,
      [Launch Chrome [], TimeTime]) \<and>
   start_browser same_ms_env ''chrome'' False None
       \<lparr>drivers = [(''chrome_5'', Driver 0)], current_session = Some ''chrome_5''\<rparr>
       [Launch Chrome [], TimeTime] =
     (''Browser started with session_id: chrome_5'',
      \<lparr>drivers = [(''chrome_5'', Driver 2)], current_session = Some ''chrome_5''\<rparr>,
      [Launch Chrome [], TimeTime, Launch Chrome [], TimeTime]) \<and>
   Driver 0 \<noteq> Driver 2"
  by (simp add: start_browser_def start_browser_try_def launch_def same_ms_env_def ok_env_def
      chrome_options_def generate_session_id_def time_ms_def str_int_def str_digits.simps
      digit_char_def except_return_def initial_state_def)

subsection \<open>The cleanup sweep\<close>





subsection \<open>Locators and timeouts\<close>

lemma get_locator_unsupported:
  "lower by \<notin> {''id'', ''css'', ''xpath'', ''name'', ''tag'', ''class''} \<Longrightarrow>
   get_locator by = Inl (ValueError (''Unsupported locator strategy: '' @ by))"
  by (simp add: get_locator_def locator_map_def)

lemma get_locator_cases:
  "get_locator by =
     (if lower by = ''id'' then Inr ById
      else if lower by = ''css'' then Inr ByCssSelector
      else if lower by = ''xpath'' then Inr ByXPath
      else if lower by = ''name'' then Inr ByName
      else if lower by = ''tag'' then Inr ByTagName
      else if lower by = ''class'' then Inr ByClassName
      else Inl (ValueError (''Unsupported locator strategy: '' @ by)))"
  by (simp add: get_locator_def locator_map_def)

lemma wait_until_unsupported:
  "lower by \<notin> {''id'', ''css'', ''xpath'', ''name'', ''tag'', ''class''} \<Longrightarrow>
   wait_until env tr d q cond by v =
     (Inl (ValueError (''Unsupported locator strategy: '' @ by)), tr)"
  by (simp add: wait_until_def get_locator_unsupported)

lemma py_truediv_1000:
  "py_truediv a 1000 = Inr q \<Longrightarrow> q = of_int a / 1000"
  by (simp add: py_truediv_def split: if_splits)

lemma snd_snd_keep: "snd (snd (keep s r)) = snd r"
  by (simp add: keep_def)

lemma find_element_unsupported:
  assumes "lower by \<notin> {''id'', ''css'', ''xpath'', ''name'', ''tag'', ''class''}"
    and "get_driver s = Inr d"
  shows "is_error (fst (find_element env by v t s tr)) \<and> snd (find_element env by v t s tr) = tr"
  by (cases "py_truediv (timeout_ms t) 1000")
     (simp_all add: find_element_def find_element_try_def assms(2) wait_until_unsupported [OF assms(1)]
        except_return_def is_error_def)

lemma find_element_trace:
  "\<exists>new. snd (find_element env by v t s tr) = tr @ new \<and>
      set (wait_seconds new) \<subseteq> {of_int (timeout_ms t) / 1000} \<and>
      (\<forall>d loc. get_driver s = Inr d \<and> get_locator by = Inr loc \<and>
           py_truediv (timeout_ms t) 1000 = Inr (of_int (timeout_ms t) / 1000) \<longrightarrow>
         (\<exists>cond rest. new = WaitUntil d (of_int (timeout_ms t) / 1000) cond loc v # rest))"
  by (cases "get_driver s"; cases "py_truediv (timeout_ms t) 1000"; cases "get_locator by")
     (auto simp: find_element_def find_element_try_def wait_until_def perform_def element_text_def
        dest!: py_truediv_1000 split: sum.splits option.splits)

lemma click_element_unsupported:
  assumes "lower by \<notin> {''id'', ''css'', ''xpath'', ''name'', ''tag'', ''class''}"
    and "get_driver s = Inr d"
  shows "is_error (fst (click_element env by v t s tr)) \<and> snd (click_element env by v t s tr) = tr"
  by (cases "py_truediv (timeout_ms t) 1000")
     (simp_all add: click_element_def click_element_try_def assms(2) wait_until_unsupported [OF assms(1)]
        except_return_def is_error_def)

lemma click_element_trace:
  "\<exists>new. snd (click_element env by v t s tr) = tr @ new \<and>
      set (wait_seconds new) \<subseteq> {of_int (timeout_ms t) / 1000} \<and>
      (\<forall>d loc. get_driver s = Inr d \<and> get_locator by = Inr loc \<and>
           py_truediv (timeout_ms t) 1000 = Inr (of_int (timeout_ms t) / 1000) \<longrightarrow>
         (\<exists>cond rest. new = WaitUntil d (of_int (timeout_ms t) / 1000) cond loc v # rest))"
  by (cases "get_driver s"; cases "py_truediv (timeout_ms t) 1000"; cases "get_locator by")
     (auto simp: click_element_def click_element_try_def wait_until_def perform_def element_text_def
        dest!: py_truediv_1000 split: sum.splits option.splits)

lemma send_keys_unsupported:
  assumes "lower by \<notin> {''id'', ''css'', ''xpath'', ''name'', ''tag'', ''class''}"
    and "get_driver s = Inr d"
  shows "is_error (fst (send_keys env by v x t s tr)) \<and> snd (send_keys env by v x t s tr) = tr"
  by (cases "py_truediv (timeout_ms t) 1000")
     (simp_all add: send_keys_def send_keys_try_def assms(2) wait_until_unsupported [OF assms(1)]
        except_return_def is_error_def)

lemma send_keys_trace:
  "\<exists>new. snd (send_keys env by v x t s tr) = tr @ new \<and>
      set (wait_seconds new) \<subseteq> {of_int (timeout_ms t) / 1000} \<and>
      (\<forall>d loc. get_driver s = Inr d \<and> get_locator by = Inr loc \<and>
           py_truediv (timeout_ms t) 1000 = Inr (of_int (timeout_ms t) / 1000) \<longrightarrow>
         (\<exists>cond rest. new = WaitUntil d (of_int (timeout_ms t) / 1000) cond loc v # rest))"
  by (cases "get_driver s"; cases "py_truediv (timeout_ms t) 1000"; cases "get_locator by")
     (auto simp: send_keys_def send_keys_try_def wait_until_def perform_def element_text_def
        dest!: py_truediv_1000 split: sum.splits option.splits)

lemma get_element_text_unsupported:
  assumes "lower by \<notin> {''id'', ''css'', ''xpath'', ''name'', ''tag'', ''class''}"
    and "get_driver s = Inr d"
  shows "is_error (fst (get_element_text env by v t s tr)) \<and> snd (get_element_text env by v t s tr) = tr"
  by (cases "py_truediv (timeout_ms t) 1000")
     (simp_all add: get_element_text_def get_element_text_try_def assms(2) wait_until_unsupported [OF assms(1)]
        except_return_def is_error_def)

lemma get_element_text_trace:
  "\<exists>new. snd (get_element_text env by v t s tr) = tr @ new \<and>
      set (wait_seconds new) \<subseteq> {of_int (timeout_ms t) / 1000} \<and>
      (\<forall>d loc. get_driver s = Inr d \<and> get_locator by = Inr loc \<and>
           py_truediv (timeout_ms t) 1000 = Inr (of_int (timeout_ms t) / 1000) \<longrightarrow>
         (\<exists>cond rest. new = WaitUntil d (of_int (timeout_ms t) / 1000) cond loc v # rest))"
  by (cases "get_driver s"; cases "py_truediv (timeout_ms t) 1000"; cases "get_locator by")
     (auto simp: get_element_text_def get_element_text_try_def wait_until_def perform_def element_text_def
        dest!: py_truediv_1000 split: sum.splits option.splits)

lemma hover_unsupported:
  assumes "lower by \<notin> {''id'', ''css'', ''xpath'', ''name'', ''tag'', ''class''}"
    and "get_driver s = Inr d"
  shows "is_error (fst (hover env by v t s tr)) \<and> snd (hover env by v t s tr) = tr"
  by (cases "py_truediv (timeout_ms t) 1000")
     (simp_all add: hover_def hover_try_def assms(2) wait_until_unsupported [OF assms(1)]
        except_return_def is_error_def)

lemma hover_trace:
  "\<exists>new. snd (hover env by v t s tr) = tr @ new \<and>
      set (wait_seconds new) \<subseteq> {of_int (timeout_ms t) / 1000} \<and>
      (\<forall>d loc. get_driver s = Inr d \<and> get_locator by = Inr loc \<and>
           py_truediv (timeout_ms t) 1000 = Inr (of_int (timeout_ms t) / 1000) \<longrightarrow>
         (\<exists>cond rest. new = WaitUntil d (of_int (timeout_ms t) / 1000) cond loc v # rest))"
  by (cases "get_driver s"; cases "py_truediv (timeout_ms t) 1000"; cases "get_locator by")
     (auto simp: hover_def hover_try_def wait_until_def perform_def element_text_def
        dest!: py_truediv_1000 split: sum.splits option.splits)

lemma double_click_unsupported:
  assumes "lower by \<notin> {''id'', ''css'', ''xpath'', ''name'', ''tag'', ''class''}"
    and "get_driver s = Inr d"
  shows "is_error (fst (double_click env by v t s tr)) \<and> snd (double_click env by v t s tr) = tr"
  by (cases "py_truediv (timeout_ms t) 1000")
     (simp_all add: double_click_def double_click_try_def assms(2) wait_until_unsupported [OF assms(1)]
        except_return_def is_error_def)

lemma double_click_trace:
  "\<exists>new. snd (double_click env by v t s tr) = tr @ new \<and>
      set (wait_seconds new) \<subseteq> {of_int (timeout_ms t) / 1000} \<and>
      (\<forall>d loc. get_driver s = Inr d \<and> get_locator by = Inr loc \<and>
           py_truediv (timeout_ms t) 1000 = Inr (of_int (timeout_ms t) / 1000) \<longrightarrow>
         (\<exists>cond rest. new = WaitUntil d (of_int (timeout_ms t) / 1000) cond loc v # rest))"
  by (cases "get_driver s"; cases "py_truediv (timeout_ms t) 1000"; cases "get_locator by")
     (auto simp: double_click_def double_click_try_def wait_until_def perform_def element_text_def
        dest!: py_truediv_1000 split: sum.splits option.splits)

lemma right_click_unsupported:
  assumes "lower by \<notin> {''id'', ''css'', ''xpath'', ''name'', ''tag'', ''class''}"
    and "get_driver s = Inr d"
  shows "is_error (fst (right_click env by v t s tr)) \<and> snd (right_click env by v t s tr) = tr"
  by (cases "py_truediv (timeout_ms t) 1000")
     (simp_all add: right_click_def right_click_try_def assms(2) wait_until_unsupported [OF assms(1)]
        except_return_def is_error_def)

lemma right_click_trace:
  "\<exists>new. snd (right_click env by v t s tr) = tr @ new \<and>
      set (wait_seconds new) \<subseteq> {of_int (timeout_ms t) / 1000} \<and>
      (\<forall>d loc. get_driver s = Inr d \<and> get_locator by = Inr loc \<and>
           py_truediv (timeout_ms t) 1000 = Inr (of_int (timeout_ms t) / 1000) \<longrightarrow>
         (\<exists>cond rest. new = WaitUntil d (of_int (timeout_ms t) / 1000) cond loc v # rest))"
  by (cases "get_driver s"; cases "py_truediv (timeout_ms t) 1000"; cases "get_locator by")
     (auto simp: right_click_def right_click_try_def wait_until_def perform_def element_text_def
        dest!: py_truediv_1000 split: sum.splits option.splits)

lemma upload_file_unsupported:
  assumes "lower by \<notin> {''id'', ''css'', ''xpath'', ''name'', ''tag'', ''class''}"
    and "get_driver s = Inr d"
  shows "is_error (fst (upload_file env by v p t s tr)) \<and> snd (upload_file env by v p t s tr) = tr"
  by (cases "py_truediv (timeout_ms t) 1000")
     (simp_all add: upload_file_def upload_file_try_def assms(2) wait_until_unsupported [OF assms(1)]
        except_return_def is_error_def)

lemma upload_file_trace:
  "\<exists>new. snd (upload_file env by v p t s tr) = tr @ new \<and>
      set (wait_seconds new) \<subseteq> {of_int (timeout_ms t) / 1000} \<and>
      (\<forall>d loc. get_driver s = Inr d \<and> get_locator by = Inr loc \<and>
           py_truediv (timeout_ms t) 1000 = Inr (of_int (timeout_ms t) / 1000) \<longrightarrow>
         (\<exists>cond rest. new = WaitUntil d (of_int (timeout_ms t) / 1000) cond loc v # rest))"
  by (cases "get_driver s"; cases "py_truediv (timeout_ms t) 1000"; cases "get_locator by")
     (auto simp: upload_file_def upload_file_try_def wait_until_def perform_def element_text_def
        dest!: py_truediv_1000 split: sum.splits option.splits)

lemma drag_and_drop_unsupported:
  assumes "lower by \<notin> {''id'', ''css'', ''xpath'', ''name'', ''tag'', ''class''}"
    and "get_driver s = Inr d"
  shows "is_error (fst (drag_and_drop env by v tby tv t s tr)) \<and>
         snd (drag_and_drop env by v tby tv t s tr) = tr"
  by (cases "py_truediv (timeout_ms t) 1000")
     (simp_all add: drag_and_drop_def drag_and_drop_try_def assms(2)
        wait_until_unsupported [OF assms(1)] except_return_def is_error_def)

lemma drag_and_drop_target_unsupported:
  assumes "lower tby \<notin> {''id'', ''css'', ''xpath'', ''name'', ''tag'', ''class''}"
    and "get_driver s = Inr d"
  shows "is_error (fst (drag_and_drop env by v tby tv t s tr)) \<and>
         (snd (drag_and_drop env by v tby tv t s tr) = tr \<or>
          (\<exists>loc. get_locator by = Inr loc \<and>
             snd (drag_and_drop env by v tby tv t s tr) =
               tr @ [WaitUntil d (of_int (timeout_ms t) / 1000) PresenceOfElementLocated loc v]))"
  by (cases "py_truediv (timeout_ms t) 1000"; cases "get_locator by")
     (auto simp: drag_and_drop_def drag_and_drop_try_def assms(2)
        get_locator_unsupported [OF assms(1)] wait_until_def except_return_def is_error_def
        dest!: py_truediv_1000 split: sum.splits)

lemma drag_and_drop_trace:
  "\<exists>new. snd (drag_and_drop env by v tby tv t s tr) = tr @ new \<and>
      set (wait_seconds new) \<subseteq> {of_int (timeout_ms t) / 1000} \<and>
      (\<forall>d loc. get_driver s = Inr d \<and> get_locator by = Inr loc \<and>
           py_truediv (timeout_ms t) 1000 = Inr (of_int (timeout_ms t) / 1000) \<longrightarrow>
         (\<exists>cond rest. new = WaitUntil d (of_int (timeout_ms t) / 1000) cond loc v # rest))"
  by (cases "get_driver s"; cases "py_truediv (timeout_ms t) 1000"; cases "get_locator by";
      cases "get_locator tby")
     (auto simp: drag_and_drop_def drag_and_drop_try_def wait_until_def perform_def
        dest!: py_truediv_1000 split: sum.splits option.splits)

lemma lower_bogus:
  "lower ''bogus'' \<notin> {''id'', ''css'', ''xpath'', ''name'', ''tag'', ''class''}"
  by (simp add: lower_def lower_char_def)

lemma get_driver_one_session: "get_driver one_session = Inr (Driver 0)"
  by (simp add: get_driver_def one_session_def)

lemma truediv_10000: "py_truediv 10000 1000 = Inr 10"
  by (simp add: py_truediv_def)

lemma truediv_2500: "py_truediv 2500 1000 = Inr (5 / 2)"
  by (simp add: py_truediv_def)

text \<open>
  C4, as the code has it. Let the lower-cased strategy be none of the six keys and let
  there be a current session. Then \<^verbatim>\<open>get_locator\<close> raises, and each tool that takes
  the strategy for its only locator, and \<^verbatim>\<open>drag_and_drop\<close> that takes it for the
  source, returns a failure and calls nothing: the trace is the one it was given.
  \<^verbatim>\<open>drag_and_drop\<close> that takes the strategy for the target returns a failure too, but
  resolves it only after the wait for the source: the trace is unchanged or has gained
  exactly that wait (no wait for the target, no drag). A strategy whose lower-casing is
  one of the six keys is resolved to the locator of that key.
\<close>

theorem unsupported_strategy_fails:
  assumes "lower by \<notin> {''id'', ''css'', ''xpath'', ''name'', ''tag'', ''class''}"
    and "get_driver s = Inr d"
  shows "get_locator by = Inl (ValueError (''Unsupported locator strategy: '' @ by)) \<and>
    (is_error (fst (find_element env by v t s tr)) \<and>
       snd (find_element env by v t s tr) = tr) \<and>
    (is_error (fst (click_element env by v t s tr)) \<and>
       snd (click_element env by v t s tr) = tr) \<and>
    (is_error (fst (send_keys env by v x t s tr)) \<and>
       snd (send_keys env by v x t s tr) = tr) \<and>
    (is_error (fst (get_element_text env by v t s tr)) \<and>
       snd (get_element_text env by v t s tr) = tr) \<and>
    (is_error (fst (hover env by v t s tr)) \<and>
       snd (hover env by v t s tr) = tr) \<and>
    (is_error (fst (double_click env by v t s tr)) \<and>
       snd (double_click env by v t s tr) = tr) \<and>
    (is_error (fst (right_click env by v t s tr)) \<and>
       snd (right_click env by v t s tr) = tr) \<and>
    (is_error (fst (upload_file env by v p t s tr)) \<and>
       snd (upload_file env by v p t s tr) = tr) \<and>
    (is_error (fst (drag_and_drop env by v tby tv t s tr)) \<and>
       snd (drag_and_drop env by v tby tv t s tr) = tr) \<and>
    (is_error (fst (drag_and_drop env sby sv by v t s tr)) \<and>
       (snd (drag_and_drop env sby sv by v t s tr) = tr \<or>
        (\<exists>loc. get_locator sby = Inr loc \<and>
           snd (drag_and_drop env sby sv by v t s tr) =
             tr @ [WaitUntil d (of_int (timeout_ms t) / 1000) PresenceOfElementLocated loc sv]))) \<and>
    (lower c = ''id'' \<longrightarrow> get_locator c = Inr ById) \<and>
    (lower c = ''css'' \<longrightarrow> get_locator c = Inr ByCssSelector) \<and>
    (lower c = ''xpath'' \<longrightarrow> get_locator c = Inr ByXPath) \<and>
    (lower c = ''name'' \<longrightarrow> get_locator c = Inr ByName) \<and>
    (lower c = ''tag'' \<longrightarrow> get_locator c = Inr ByTagName) \<and>
    (lower c = ''class'' \<longrightarrow> get_locator c = Inr ByClassName)"
proof -
  note u = assms(1) and g = assms(2)
  have r: "(lower c = ''id'' \<longrightarrow> get_locator c = Inr ById) \<and>
    (lower c = ''css'' \<longrightarrow> get_locator c = Inr ByCssSelector) \<and>
    (lower c = ''xpath'' \<longrightarrow> get_locator c = Inr ByXPath) \<and>
    (lower c = ''name'' \<longrightarrow> get_locator c = Inr ByName) \<and>
    (lower c = ''tag'' \<longrightarrow> get_locator c = Inr ByTagName) \<and>
    (lower c = ''class'' \<longrightarrow> get_locator c = Inr ByClassName)"
    by (simp add: get_locator_cases)
  show ?thesis
    using get_locator_unsupported [OF u]
      find_element_unsupported [OF u g, of env v t tr]
      click_element_unsupported [OF u g, of env v t tr]
      send_keys_unsupported [OF u g, of env v x t tr]
      get_element_text_unsupported [OF u g, of env v t tr]
      hover_unsupported [OF u g, of env v t tr]
      double_click_unsupported [OF u g, of env v t tr]
      right_click_unsupported [OF u g, of env v t tr]
      upload_file_unsupported [OF u g, of env v p t tr]
      drag_and_drop_unsupported [OF u g, of env v tby tv t tr]
      drag_and_drop_target_unsupported [OF u g, of env sby sv v t tr]
      r
    by blast
qed

theorem unsupported_strategy_fails_witness:
  "lower ''bogus'' \<notin> {''id'', ''css'', ''xpath'', ''name'', ''tag'', ''class''} \<and>
   get_driver one_session = Inr (Driver 0) \<and>
   find_element ok_env ''bogus'' ''a'' None one_session [] =
     (''Error finding element: Unsupported locator strategy: bogus'', []) \<and>
   is_error (fst (click_element ok_env ''bogus'' ''a'' None one_session [])) \<and>
   snd (click_element ok_env ''bogus'' ''a'' None one_session []) = [] \<and>
   lower ''XPath'' = ''xpath'' \<and>
   get_locator ''XPath'' = Inr ByXPath"
proof -
  note t = unsupported_strategy_fails [OF lower_bogus get_driver_one_session,
      where env = ok_env and v = "''a''" and t = None and tr = "[]" and c = "''XPath''"]
  have f: "find_element ok_env ''bogus'' ''a'' None one_session [] =
      (''Error finding element: Unsupported locator strategy: bogus'', [])"
    by (simp add: find_element_def find_element_try_def get_driver_one_session timeout_ms_def
        truediv_10000 wait_until_unsupported [OF lower_bogus] except_return_def)
  have l: "lower ''XPath'' = ''xpath''"
    by (simp add: lower_def lower_char_def)
  have c: "is_error (fst (click_element ok_env ''bogus'' ''a'' None one_session [])) \<and>
      snd (click_element ok_env ''bogus'' ''a'' None one_session []) = []"
    using t by blast
  have x: "get_locator ''XPath'' = Inr ByXPath"
    using t l by blast
  show ?thesis using lower_bogus get_driver_one_session f l c x by blast
qed

text \<open>
  C4, as the claim has it, fails for \<^verbatim>\<open>drag_and_drop\<close>: with a supported source
  strategy and an unsupported target strategy the result is a failure, but the engine has
  been asked to wait for the source element.
\<close>

theorem drag_and_drop_waits_for_source:
  "lower ''bogus'' \<notin> {''id'', ''css'', ''xpath'', ''name'', ''tag'', ''class''} \<and>
   get_driver one_session = Inr (Driver 0) \<and>
   drag_and_drop ok_env ''id'' ''a'' ''bogus'' ''b'' None one_session [] =
     (''Error performing drag and drop: Unsupported locator strategy: bogus'',
      [WaitUntil (Driver 0) 10 PresenceOfElementLocated ById ''a''])"
  by (simp add: lower_bogus get_driver_one_session drag_and_drop_def drag_and_drop_try_def
      timeout_ms_def truediv_10000 wait_until_def get_locator_cases lower_def lower_char_def
      ok_env_def except_return_def)

lemma timed_trace:
  assumes "timed c = Some (by, v, t)"
  shows "\<exists>new. snd (snd (dispatch env c s tr)) = tr @ new \<and>
       set (wait_seconds new) \<subseteq> {of_int (timeout_ms t) / 1000} \<and>
       (\<forall>d loc. get_driver s = Inr d \<and> get_locator by = Inr loc \<and>
            py_truediv (timeout_ms t) 1000 = Inr (of_int (timeout_ms t) / 1000) \<longrightarrow>
          (\<exists>cond rest. new = WaitUntil d (of_int (timeout_ms t) / 1000) cond loc v # rest))"
proof (cases c)
  case (FindElement b' v' t')
  with assms have "c = FindElement by v t" by simp
  then show ?thesis using find_element_trace [of env "by" v t s tr]
    by (simp add: snd_snd_keep)
next
  case (ClickElement b' v' t')
  with assms have "c = ClickElement by v t" by simp
  then show ?thesis using click_element_trace [of env "by" v t s tr]
    by (simp add: snd_snd_keep)
next
  case (SendKeys b' v' x' t')
  with assms have "c = SendKeys by v x' t" by simp
  then show ?thesis using send_keys_trace [of env "by" v x' t s tr]
    by (simp add: snd_snd_keep)
next
  case (GetElementText b' v' t')
  with assms have "c = GetElementText by v t" by simp
  then show ?thesis using get_element_text_trace [of env "by" v t s tr]
    by (simp add: snd_snd_keep)
next
  case (Hover b' v' t')
  with assms have "c = Hover by v t" by simp
  then show ?thesis using hover_trace [of env "by" v t s tr]
    by (simp add: snd_snd_keep)
next
  case (DragAndDropElement b' v' tb' tv' t')
  with assms have "c = DragAndDropElement by v tb' tv' t" by simp
  then show ?thesis using drag_and_drop_trace [of env "by" v tb' tv' t s tr]
    by (simp add: snd_snd_keep)
next
  case (DoubleClickElement b' v' t')
  with assms have "c = DoubleClickElement by v t" by simp
  then show ?thesis using double_click_trace [of env "by" v t s tr]
    by (simp add: snd_snd_keep)
next
  case (RightClick b' v' t')
  with assms have "c = RightClick by v t" by simp
  then show ?thesis using right_click_trace [of env "by" v t s tr]
    by (simp add: snd_snd_keep)
next
  case (UploadFile b' v' p' t')
  with assms have "c = UploadFile by v p' t" by simp
  then show ?thesis using upload_file_trace [of env "by" v p' t s tr]
    by (simp add: snd_snd_keep)
qed (use assms in simp_all)

lemma py_truediv_fits:
  "\<bar>of_int a / 1000 :: rat\<bar> < 2 ^ 1024 - 2 ^ 970 \<Longrightarrow> py_truediv a 1000 = Inr (of_int a / 1000)"
  by (simp add: py_truediv_def)

lemma get_locator_key:
  "(lower by, loc) \<in> {(''id'', ById), (''css'', ByCssSelector), (''xpath'', ByXPath),
      (''name'', ByName), (''tag'', ByTagName), (''class'', ByClassName)} \<Longrightarrow>
   get_locator by = Inr loc"
  by (auto simp: get_locator_cases)

text \<open>
  C8. Take one of the nine tools with a \<^verbatim>\<open>timeout\<close> parameter, and let \<open>ms\<close> be its
  timeout argument, 10000 when the argument is left out. Every wait the tool performs is
  given \<open>ms / 1000\<close> (the two waits of \<^verbatim>\<open>drag_and_drop\<close> the same quotient). With a
  current session, a strategy whose lower-casing is a key of the locator table and a
  quotient that fits a float, the tool does wait: its first call is the wait for the
  locator of that key and the value, with that quotient. The quotient is the exact
  rational; Python passes the double nearest to it.
\<close>

theorem timeout_in_seconds:
  assumes "timed c = Some (by, v, t)"
    and "ms = (case t of None \<Rightarrow> 10000 | Some x \<Rightarrow> x)"
  shows "\<exists>new. snd (snd (dispatch env c s tr)) = tr @ new \<and>
       set (wait_seconds new) \<subseteq> {of_int ms / 1000} \<and>
       (\<forall>sid d loc.
          current_session s = Some sid \<and> map_of (drivers s) sid = Some d \<and>
          (lower by, loc) \<in> {(''id'', ById), (''css'', ByCssSelector), (''xpath'', ByXPath),
             (''name'', ByName), (''tag'', ByTagName), (''class'', ByClassName)} \<and>
          \<bar>of_int ms / 1000 :: rat\<bar> < 2 ^ 1024 - 2 ^ 970 \<longrightarrow>
          (\<exists>cond rest. new = WaitUntil d (of_int ms / 1000) cond loc v # rest))"
proof -
  have m: "timeout_ms t = ms"
    by (simp add: timeout_ms_def assms(2))
  obtain new where n: "snd (snd (dispatch env c s tr)) = tr @ new"
    and w: "set (wait_seconds new) \<subseteq> {of_int ms / 1000}"
    and f: "\<forall>d loc. get_driver s = Inr d \<and> get_locator by = Inr loc \<and>
            py_truediv ms 1000 = Inr (of_int ms / 1000) \<longrightarrow>
          (\<exists>cond rest. new = WaitUntil d (of_int ms / 1000) cond loc v # rest)"
    using timed_trace [OF assms(1), of env s tr] unfolding m by blast
  have "\<exists>cond rest. new = WaitUntil d (of_int ms / 1000) cond loc v # rest"
    if "current_session s = Some sid" "map_of (drivers s) sid = Some d"
      "(lower by, loc) \<in> {(''id'', ById), (''css'', ByCssSelector), (''xpath'', ByXPath),
             (''name'', ByName), (''tag'', ByTagName), (''class'', ByClassName)}"
      "\<bar>of_int ms / 1000 :: rat\<bar> < 2 ^ 1024 - 2 ^ 970"
    for sid d loc
  proof -
    have "get_driver s = Inr d"
      using that(1,2) by (simp add: get_driver_def)
    moreover have "get_locator by = Inr loc"
      using that(3) by (rule get_locator_key)
    moreover have "py_truediv ms 1000 = Inr (of_int ms / 1000)"
      using that(4) by (rule py_truediv_fits)
    ultimately show ?thesis using f by blast
  qed
  then show ?thesis using n w by blast
qed

theorem timeout_in_seconds_witness:
  "timed (DragAndDropElement ''id'' ''a'' ''css'' ''b'' (Some 2500)) =
     Some (''id'', ''a'', Some 2500) \<and>
   (2500::int) = (case Some 2500 of None \<Rightarrow> 10000 | Some x \<Rightarrow> x) \<and>
   current_session one_session = Some ''chrome_1001'' \<and>
   map_of (drivers one_session) ''chrome_1001'' = Some (Driver 0) \<and>
   lower ''id'' = ''id'' \<and>
   \<bar>of_int 2500 / 1000 :: rat\<bar> < 2 ^ 1024 - 2 ^ 970 \<and>
   snd (snd (dispatch ok_env (DragAndDropElement ''id'' ''a'' ''css'' ''b'' (Some 2500))
        one_session [])) =
     [WaitUntil (Driver 0) (5 / 2) PresenceOfElementLocated ById ''a'',
      WaitUntil (Driver 0) (5 / 2) PresenceOfElementLocated ByCssSelector ''b'',
      DragAndDrop (Driver 0) (Element 0) (Element 1)] \<and>
   snd (snd (dispatch ok_env (FindElement ''id'' ''a'' None) one_session [])) =
     [WaitUntil (Driver 0) 10 PresenceOfElementLocated ById ''a''] \<and>
   snd (snd (dispatch ok_env (ClickElement ''id'' ''a'' (Some 300)) one_session [])) =
     [WaitUntil (Driver 0) (3 / 10) ElementToBeClickable ById ''a'', ElementClick (Element 0)] \<and>
   set (wait_seconds
     (snd (snd (dispatch ok_env (DragAndDropElement ''id'' ''a'' ''css'' ''b'' (Some 2500))
        one_session []))))
     \<subseteq> {5 / 2}"
proof -
  have h: "timed (DragAndDropElement ''id'' ''a'' ''css'' ''b'' (Some 2500)) =
      Some (''id'', ''a'', Some 2500)"
    by simp
  have m: "(2500::int) = (case Some 2500 of None \<Rightarrow> 10000 | Some x \<Rightarrow> x)"
    by simp
  have c: "current_session one_session = Some ''chrome_1001''"
    "map_of (drivers one_session) ''chrome_1001'' = Some (Driver 0)"
    by (simp_all add: one_session_def)
  have l: "lower ''id'' = ''id''"
    by (simp add: lower_def lower_char_def)
  have q: "\<bar>of_int 2500 / 1000 :: rat\<bar> < 2 ^ 1024 - 2 ^ 970"
    by simp
  have a: "snd (snd (dispatch ok_env (DragAndDropElement ''id'' ''a'' ''css'' ''b'' (Some 2500))
        one_session [])) =
     [WaitUntil (Driver 0) (5 / 2) PresenceOfElementLocated ById ''a'',
      WaitUntil (Driver 0) (5 / 2) PresenceOfElementLocated ByCssSelector ''b'',
      DragAndDrop (Driver 0) (Element 0) (Element 1)]"
    by (simp add: keep_def get_driver_one_session drag_and_drop_def drag_and_drop_try_def
      timeout_ms_def truediv_2500 wait_until_def get_locator_cases lower_def lower_char_def
      ok_env_def perform_def except_return_def)
  have b: "snd (snd (dispatch ok_env (FindElement ''id'' ''a'' None) one_session [])) =
     [WaitUntil (Driver 0) 10 PresenceOfElementLocated ById ''a'']"
    by (simp add: keep_def get_driver_one_session find_element_def find_element_try_def
      timeout_ms_def truediv_10000 wait_until_def get_locator_cases lower_def lower_char_def
      ok_env_def except_return_def)
  have d: "snd (snd (dispatch ok_env (ClickElement ''id'' ''a'' (Some 300)) one_session [])) =
     [WaitUntil (Driver 0) (3 / 10) ElementToBeClickable ById ''a'', ElementClick (Element 0)]"
    by (simp add: keep_def get_driver_one_session click_element_def click_element_try_def
      timeout_ms_def py_truediv_def wait_until_def get_locator_cases lower_def lower_char_def
      ok_env_def perform_def except_return_def)
  from timeout_in_seconds [OF h m, of ok_env one_session "[]"]
  obtain new where n: "snd (snd (dispatch ok_env
        (DragAndDropElement ''id'' ''a'' ''css'' ''b'' (Some 2500)) one_session [])) = [] @ new"
    and w: "set (wait_seconds new) \<subseteq> {of_int 2500 / 1000}"
    by blast
  have "set (wait_seconds
     (snd (snd (dispatch ok_env (DragAndDropElement ''id'' ''a'' ''css'' ''b'' (Some 2500))
        one_session []))))
     \<subseteq> {5 / 2}"
    using w unfolding n by simp
  then show ?thesis using h m c l q a b d by blast
qed

end
